theory Spec2Isabelle
  imports Complex_Main "HOL-Library.Word" "HOL-Library.Signed_Division" "HOL-Library.Multiset"
begin

section \<open>The reflected-stream player (app/player/player.go)\<close>

text \<open>
  A shallow embedding of \<^verbatim>\<open>reflectedStream\<close> and its methods \<^verbatim>\<open>resolve\<close>,
  \<^verbatim>\<open>fetchData\<close>, \<^verbatim>\<open>Seek\<close>, \<^verbatim>\<open>Read\<close> and \<^verbatim>\<open>streamBlob\<close>.

  \<^item> Go's \<^verbatim>\<open>int64\<close> and \<^verbatim>\<open>int\<close> (on a 64-bit target) are \<open>64 word\<close>: \<open>+\<close>, \<open>-\<close> and
    \<open>*\<close> wrap around as in Go, comparisons go through \<open>sint\<close>, and \<^verbatim>\<open>/\<close> truncates
    towards zero (\<open>go_div\<close>).
  \<^item> A method mutates its receiver and returns \<^verbatim>\<open>(value, err)\<close>; the model returns the
    updated receiver together with the value and an \<open>error option\<close> (\<open>None\<close> is \<^verbatim>\<open>nil\<close>).
  \<^item> A runtime panic (index out of range, slice bounds out of range, nil dereference)
    is the \<open>Inl\<close> branch of a sum: the call does not return.
  \<^item> The collaborators (the resolver, the HTTP transport, the descriptor parser and the
    blob cipher) are the fields of an environment record; every call made to the
    resolver or to the network is recorded, in order, in a list of \<open>call\<close>s.
  \<^item> Logging and timing have no effect on the results and are left out.
\<close>

subsection \<open>Machine integers, bytes and library functions\<close>

type_synonym byte = "8 word"

text \<open>Go's \<^verbatim>\<open>/\<close> on signed integers: the quotient truncated towards zero, wrapped to 64 bits.\<close>

definition go_div :: "64 word \<Rightarrow> 64 word \<Rightarrow> 64 word" where
  "go_div a b = word_of_int (sint a sdiv sint b)"

text \<open>
  Go's \<^verbatim>\<open>len\<close>, an \<^verbatim>\<open>int\<close>. A Go slice has fewer than \<open>2^63\<close> elements; where a
  theorem reads a length back as an integer it says so.
\<close>

definition len :: "'a list \<Rightarrow> 64 word" where
  "len xs = word_of_nat (length xs)"

text \<open>Go's \<^verbatim>\<open>copy(dst, src)\<close>: the new contents of \<open>dst\<close> and the number of elements copied.\<close>

definition copy :: "'a list \<Rightarrow> 'a list \<Rightarrow> 'a list \<times> 64 word" where
  "copy dst src =
     (let k = min (length dst) (length src)
      in (take k src @ drop k dst, word_of_nat k))"

datatype panic = IndexOutOfRange | SliceBoundsOutOfRange | NilDereference

text \<open>
  Go's slice expression \<^verbatim>\<open>a[lo:hi]\<close> with \<^verbatim>\<open>int64\<close> bounds: it panics unless
  \<open>0 \<le> lo \<le> hi \<le> cap a\<close>. The one slice taken in the source is of a freshly
  decrypted buffer and its upper bound never exceeds the length, so the length stands for
  the capacity.
\<close>

definition slice :: "'a list \<Rightarrow> 64 word \<Rightarrow> 64 word \<Rightarrow> panic + 'a list" where
  "slice a lo hi =
     (if 0 \<le> sint lo \<and> sint lo \<le> sint hi \<and> sint hi \<le> int (length a)
      then Inr (take (nat (sint hi) - nat (sint lo)) (drop (nat (sint lo)) a))
      else Inl SliceBoundsOutOfRange)"

text \<open>\<^verbatim>\<open>hex.EncodeToString\<close>: two lower-case hexadecimal digits per byte.\<close>

definition hexdigit :: "nat \<Rightarrow> char" where
  "hexdigit n = ''0123456789abcdef'' ! n"

definition hex_EncodeToString :: "byte list \<Rightarrow> string" where
  "hex_EncodeToString bs =
     concat (map (\<lambda>b. [hexdigit (unat b div 16), hexdigit (unat b mod 16)]) bs)"

text \<open>The three \<^verbatim>\<open>whence\<close> values of package \<^verbatim>\<open>io\<close>.\<close>

definition io_SeekStart :: "64 word" where "io_SeekStart = 0"
definition io_SeekCurrent :: "64 word" where "io_SeekCurrent = 1"
definition io_SeekEnd :: "64 word" where "io_SeekEnd = 2"

definition http_StatusOK :: "64 word" where "http_StatusOK = 200"

subsection \<open>Errors\<close>

text \<open>
  An error value is identified by how the source builds it: \<^verbatim>\<open>errors.New(msg)\<close>,
  \<^verbatim>\<open>fmt.Errorf(...)\<close> with the formatted message, or a value handed back by a
  collaborator.
\<close>

datatype error = errors_New string | fmt_Errorf string | Collaborator string

subsection \<open>Data model\<close>

text \<open>
  Modelled from the spec: the types \<^verbatim>\<open>stream.BlobInfo\<close> and \<^verbatim>\<open>stream.SDBlob\<close> are declared
  in the library \<^verbatim>\<open>lbry.go/stream\<close>, outside the source tree. A blob descriptor has a
  sequence number, a content hash, a declared ciphertext length and an initialisation
  vector; the stream descriptor has the shared key and the descriptor sequence. The
  fields carry the names the source reads them by.
\<close>

record BlobInfo =
  Length :: "64 word"
  BlobNum :: "64 word"
  BlobHash :: "byte list"
  IV :: "byte list"

record SDBlob =
  BlobInfos :: "BlobInfo list"
  Key :: "byte list"

text \<open>
  Modelled from the spec: the result of \<^verbatim>\<open>lbrynet.Resolve\<close> (package
  \<^verbatim>\<open>internal/lbrynet\<close>, outside the source tree), read through
  \<^verbatim>\<open>r.Value.GetStream()\<close>: a source hash, a media type, a declared size and an optional
  fee with an amount. The type of the amount is left open (\<open>'a\<close>); the source only
  compares it with zero. A resolver answer always carries a stream with a source, as in the
  resolver contract of the specification; only the fee may be absent (\<^verbatim>\<open>nil\<close>).
\<close>

record Source =
  SdHash :: "byte list"
  MediaType :: string
  Size :: "64 word"

record 'a Fee =
  Amount :: 'a

record 'a Stream =
  Fee :: "'a Fee option"
  Source :: Source

record reflectedStream =
  URI :: string
  StartByte :: "64 word"
  EndByte :: "64 word"
  SdHash :: string
  Size :: "64 word"
  ContentType :: string
  SDBlob :: "SDBlob option"
  seekOffset :: "64 word"

subsection \<open>The environment\<close>

text \<open>
  What \<^verbatim>\<open>http.Get\<close> gives back: the status and the outcome of reading the whole body
  (\<^verbatim>\<open>ioutil.ReadAll(resp.Body)\<close>).
\<close>

record Response =
  StatusCode :: "64 word"
  Status :: string
  Body :: "error + byte list"

text \<open>
  \<open>MaxBlobSize\<close> is the constant \<^verbatim>\<open>stream.MaxBlobSize\<close> of \<^verbatim>\<open>lbry.go/stream\<close>, an untyped
  integer constant whose declaration is outside the source tree: it is a parameter here.
  Constant expressions such as \<^verbatim>\<open>stream.MaxBlobSize - 2\<close> are computed exactly and then
  converted to the type of the other operand.
\<close>

record 'a env =
  MaxBlobSize :: int
  Resolve :: "string \<Rightarrow> error + 'a Stream"
  Get :: "string \<Rightarrow> error + Response"
  UnmarshalJSON :: "byte list \<Rightarrow> error + SDBlob"
  DecryptBlob :: "byte list \<Rightarrow> byte list \<Rightarrow> byte list \<Rightarrow> error + byte list"

datatype call = lbrynet_Resolve string | http_Get string

subsection \<open>Construction and resolution\<close>

definition reflectorURL :: string where
  "reflectorURL = ''http://blobs.lbry.io/''"

text \<open>The zero value of the struct with \<^verbatim>\<open>URI\<close> set: \<^verbatim>\<open>&reflectedStream{URI: uri}\<close>.\<close>

definition new_stream :: "string \<Rightarrow> reflectedStream" where
  "new_stream uri =
     \<lparr>URI = uri, StartByte = 0, EndByte = 0, SdHash = [], Size = 0,
      ContentType = [], SDBlob = None, seekOffset = 0\<rparr>"

definition URL :: "reflectedStream \<Rightarrow> string" where
  "URL s = reflectorURL @ SdHash s"

definition blobInfoURL :: "BlobInfo \<Rightarrow> string" where
  "blobInfoURL bi = reflectorURL @ hex_EncodeToString (BlobHash bi)"

definition resolve ::
  "('a::{zero,ord}) env \<Rightarrow> reflectedStream \<Rightarrow> call list \<times> reflectedStream \<times> error option" where
  "resolve env s =
     (if URI s = [] then ([], s, Some (errors_New ''stream uri is not set''))
      else case Resolve env (URI s) of
        Inl err \<Rightarrow> ([lbrynet_Resolve (URI s)], s, Some err)
      | Inr stream \<Rightarrow>
          if (case Fee stream of None \<Rightarrow> False | Some fee \<Rightarrow> Amount fee > 0)
          then ([lbrynet_Resolve (URI s)], s, Some (errors_New ''paid stream''))
          else ([lbrynet_Resolve (URI s)],
                s\<lparr>SdHash := hex_EncodeToString (Source.SdHash (Source stream)),
                  ContentType := MediaType (Source stream),
                  Size := Source.Size (Source stream)\<rparr>,
                None))"

text \<open>
  \<^verbatim>\<open>newReflectedStream\<close> also builds a JSON-RPC client, which sends nothing and which
  \<^verbatim>\<open>resolve\<close> never uses: resolution goes through \<^verbatim>\<open>lbrynet.Resolve\<close>.
\<close>

definition newReflectedStream ::
  "('a::{zero,ord}) env \<Rightarrow> string \<Rightarrow> call list \<times> reflectedStream \<times> error option" where
  "newReflectedStream env uri = resolve env (new_stream uri)"

subsection \<open>Fetching the blob index\<close>

text \<open>
  The loop of \<^verbatim>\<open>fetchData\<close> that adds up the size, with the running value of
  \<^verbatim>\<open>s.Size\<close> as accumulator.
\<close>

fun addSizes :: "int \<Rightarrow> BlobInfo list \<Rightarrow> 64 word \<Rightarrow> 64 word" where
  "addSizes M [] sz = sz"
| "addSizes M (bi # bis) sz =
     addSizes M bis
       (if Length bi = word_of_int M then sz + word_of_int (M - 1) else sz + Length bi)"

text \<open>
  \<^verbatim>\<open>sort.Slice\<close> with the comparison \<^verbatim>\<open>BlobNum[i] < BlobNum[j]\<close> on signed integers. The
  library leaves the relative order of entries with equal keys open; a stable sort stands
  for it, and nothing below depends on that order.
\<close>

definition sortBlobInfos :: "BlobInfo list \<Rightarrow> BlobInfo list" where
  "sortBlobInfos bis = sort_key (\<lambda>bi. sint (BlobNum bi)) bis"

definition fetchData ::
  "'a env \<Rightarrow> reflectedStream \<Rightarrow> call list \<times> reflectedStream \<times> error option" where
  "fetchData env s =
     (if SdHash s = [] then ([], s, Some (errors_New ''no sd hash set, call `resolve` first''))
      else case Get env (URL s) of
        Inl err \<Rightarrow> ([http_Get (URL s)], s, Some err)
      | Inr resp \<Rightarrow>
          (case Body resp of
             Inl err \<Rightarrow> ([http_Get (URL s)], s, Some err)
           | Inr body \<Rightarrow>
               (case UnmarshalJSON env body of
                  Inl err \<Rightarrow> ([http_Get (URL s)], s, Some err)
                | Inr sdb \<Rightarrow>
                    (let s1 = (if Size s = 0
                               then s\<lparr>Size := addSizes (MaxBlobSize env) (BlobInfos sdb) (Size s) - 15\<rparr>
                               else s);
                         sdb' = sdb\<lparr>BlobInfos := sortBlobInfos (BlobInfos sdb)\<rparr>
                     in ([http_Get (URL s)], s1\<lparr>SDBlob := Some sdb'\<rparr>, None)))))"

subsection \<open>Seek and Read\<close>

definition Seek ::
  "reflectedStream \<Rightarrow> 64 word \<Rightarrow> 64 word \<Rightarrow> reflectedStream \<times> 64 word \<times> error option" where
  "Seek s offset whence =
     (case (if whence = io_SeekEnd then Some (Size s - offset)
            else if whence = io_SeekStart then Some offset
            else if whence = io_SeekCurrent then Some (seekOffset s + offset)
            else None) of
        None \<Rightarrow> (s, 0, Some (errors_New ''invalid seek whence argument''))
      | Some newSeekOffset \<Rightarrow>
          if 0 > sint newSeekOffset
          then (s, 0, Some (errors_New ''seeking before the beginning of file''))
          else (s\<lparr>seekOffset := newSeekOffset\<rparr>, newSeekOffset, None))"

text \<open>
  \<^verbatim>\<open>streamBlob\<close> returns the calls made, the new contents of \<open>dest\<close>, \<open>n\<close> and \<open>err\<close>.
  The named result \<open>n\<close> starts at zero.
\<close>

definition streamBlob ::
  "'a env \<Rightarrow> reflectedStream \<Rightarrow> 64 word \<Rightarrow> 64 word \<Rightarrow> byte list \<Rightarrow>
     panic + (call list \<times> byte list \<times> 64 word \<times> error option)" where
  "streamBlob env s blobNum startOffsetInBlob0 dest =
     (case SDBlob s of
        None \<Rightarrow> Inl NilDereference
      | Some sdb \<Rightarrow>
          if \<not> (0 \<le> sint blobNum \<and> sint blobNum < int (length (BlobInfos sdb)))
          then Inl IndexOutOfRange
          else
            (let bi = BlobInfos sdb ! nat (sint blobNum);
                 n = (0 :: 64 word);
                 startOffsetInBlob = (if sint n > 0 then 0 else startOffsetInBlob0);
                 url = blobInfoURL bi
             in case Get env url of
                  Inl err \<Rightarrow> Inr ([http_Get url], dest, 0, Some err)
                | Inr resp \<Rightarrow>
                    if StatusCode resp = http_StatusOK then
                      (case Body resp of
                         Inl err \<Rightarrow> Inr ([http_Get url], dest, 0, Some err)
                       | Inr encryptedBody \<Rightarrow>
                           (case DecryptBlob env encryptedBody (Key sdb) (IV bi) of
                              Inl err \<Rightarrow> Inr ([http_Get url], dest, 0, Some err)
                            | Inr decryptedBody \<Rightarrow>
                                (let endOffsetInBlob0 = len dest + startOffsetInBlob;
                                     endOffsetInBlob =
                                       (if sint endOffsetInBlob0 > sint (len decryptedBody)
                                        then len decryptedBody else endOffsetInBlob0)
                                 in case slice decryptedBody startOffsetInBlob endOffsetInBlob of
                                      Inl p \<Rightarrow> Inl p
                                    | Inr src \<Rightarrow>
                                        (let (dest', thisN) = copy dest src
                                         in Inr ([http_Get url], dest', n + thisN, None)))))
                    else Inr ([http_Get url], dest, n,
                              Some (fmt_Errorf (''server responded with an unexpected status (''
                                                @ Status resp @ '')'')))))"

text \<open>The two offsets \<^verbatim>\<open>Read\<close> computes from the cursor before it calls \<^verbatim>\<open>streamBlob\<close>.\<close>

definition blobNum_of :: "int \<Rightarrow> 64 word \<Rightarrow> 64 word" where
  "blobNum_of M cursor = go_div cursor (word_of_int (M - 2))"

definition startOffsetInBlob_of :: "int \<Rightarrow> 64 word \<Rightarrow> 64 word" where
  "startOffsetInBlob_of M cursor =
     (let blobNum = blobNum_of M cursor
      in if blobNum = 0 then cursor - blobNum * word_of_int M
         else cursor - blobNum * word_of_int M + blobNum)"

definition Read ::
  "'a env \<Rightarrow> reflectedStream \<Rightarrow> byte list \<Rightarrow>
     panic + (call list \<times> reflectedStream \<times> byte list \<times> 64 word \<times> error option)" where
  "Read env s p =
     (let blobNum = blobNum_of (MaxBlobSize env) (seekOffset s);
          startOffsetInBlob = startOffsetInBlob_of (MaxBlobSize env) (seekOffset s)
      in case streamBlob env s blobNum startOffsetInBlob p of
           Inl pk \<Rightarrow> Inl pk
         | Inr (calls, p', n, err) \<Rightarrow>
             Inr (calls, s\<lparr>seekOffset := seekOffset s + n\<rparr>, p', n, err))"


subsection \<open>The entry point\<close>

text \<open>
  \<^verbatim>\<open>PlayURI\<close> up to the point where it hands the stream to \<^verbatim>\<open>ServeContent\<close>: the calls
  made so far and either the error it returns or the stream it serves.
\<close>

definition PlayURI ::
  "('a::{zero,ord}) env \<Rightarrow> string \<Rightarrow> call list \<times> (error + reflectedStream)" where
  "PlayURI env uri =
     (case newReflectedStream env uri of
        (calls1, rs, Some err) \<Rightarrow> (calls1, Inl err)
      | (calls1, rs, None) \<Rightarrow>
          (case fetchData env rs of
             (calls2, rs', Some err) \<Rightarrow> (calls1 @ calls2, Inl err)
           | (calls2, rs', None) \<Rightarrow> (calls1 @ calls2, Inr rs')))"

subsection \<open>Concrete streams and environments\<close>

text \<open>A resolved stream of declared size 100 whose cursor stands at 10.\<close>

definition stream0 :: reflectedStream where
  "stream0 = (new_stream ''lbry://some'')\<lparr>Size := 100, seekOffset := 10\<rparr>"

text \<open>
  A small world with fee amounts in \<open>real\<close>. The resolver knows a stream with a zero fee
  and a declared size, a paid stream (fee 0.01) and a free stream without a declared size. The
  transport serves two descriptor documents and a few blobs, refuses one connection,
  breaks one body and answers 404 for everything else. The first descriptor document
  lists its two blobs out of order; the second lists two blobs of full declared length.
  The cipher hands the body back and rejects an empty one.
\<close>

definition sd_one :: SDBlob where
  "sd_one =
     \<lparr>BlobInfos =
        [\<lparr>Length = 3, BlobNum = 1, BlobHash = [0x01], IV = [2]\<rparr>,
         \<lparr>Length = 5, BlobNum = 0, BlobHash = [0x00], IV = [1]\<rparr>],
      Key = [7]\<rparr>"

definition sd_full :: SDBlob where
  "sd_full =
     \<lparr>BlobInfos =
        [\<lparr>Length = 2097152, BlobNum = 1, BlobHash = [0x01], IV = [2]\<rparr>,
         \<lparr>Length = 2097152, BlobNum = 0, BlobHash = [0x00], IV = [1]\<rparr>],
      Key = [7]\<rparr>"

definition env0 :: "real env" where
  "env0 =
     \<lparr>MaxBlobSize = 2097152,
      Resolve = (\<lambda>uri.
        if uri = ''lbry://one'' then
          Inr \<lparr>Fee = Some \<lparr>Amount = 0\<rparr>,
               Source = \<lparr>Source.SdHash = [0xAB, 0x01], MediaType = ''video/mp4'', Source.Size = 8\<rparr>\<rparr>
        else if uri = ''lbry://paid'' then
          Inr \<lparr>Fee = Some \<lparr>Amount = 1 / 100\<rparr>,
               Source = \<lparr>Source.SdHash = [0xAB, 0x01], MediaType = ''video/mp4'', Source.Size = 8\<rparr>\<rparr>
        else if uri = ''lbry://full'' then
          Inr \<lparr>Fee = None,
               Source = \<lparr>Source.SdHash = [0xAB, 0x02], MediaType = ''video/webm'', Source.Size = 0\<rparr>\<rparr>
        else Inl (Collaborator ''not found'')),
      Get = (\<lambda>url.
        if url = ''http://blobs.lbry.io/ab01'' then
          Inr \<lparr>StatusCode = 200, Status = ''200 OK'', Body = Inr [1]\<rparr>
        else if url = ''http://blobs.lbry.io/ab02'' then
          Inr \<lparr>StatusCode = 200, Status = ''200 OK'', Body = Inr [2]\<rparr>
        else if url = ''http://blobs.lbry.io/00'' then
          Inr \<lparr>StatusCode = 200, Status = ''200 OK'', Body = Inr [10, 20, 30, 40, 50]\<rparr>
        else if url = ''http://blobs.lbry.io/01'' then
          Inr \<lparr>StatusCode = 200, Status = ''200 OK'', Body = Inr [60, 70, 80]\<rparr>
        else if url = ''http://blobs.lbry.io/02'' then
          Inl (Collaborator ''connection refused'')
        else if url = ''http://blobs.lbry.io/03'' then
          Inr \<lparr>StatusCode = 200, Status = ''200 OK'', Body = Inl (Collaborator ''unexpected EOF'')\<rparr>
        else if url = ''http://blobs.lbry.io/04'' then
          Inr \<lparr>StatusCode = 200, Status = ''200 OK'', Body = Inr []\<rparr>
        else Inr \<lparr>StatusCode = 404, Status = ''404 Not Found'', Body = Inr []\<rparr>),
      UnmarshalJSON = (\<lambda>body.
        if body = [1] then Inr sd_one
        else if body = [2] then Inr sd_full
        else Inl (Collaborator ''invalid character'')),
      DecryptBlob = (\<lambda>blob key iv.
        if blob = [] then Inl (Collaborator ''invalid blob'') else Inr blob)\<rparr>"

text \<open>The two streams of that world as \<^verbatim>\<open>resolve\<close> leaves them, and the index of the second.\<close>

definition stream_one :: reflectedStream where
  "stream_one =
     (new_stream ''lbry://one'')\<lparr>SdHash := ''ab01'', ContentType := ''video/mp4'', Size := 8\<rparr>"

definition stream_full :: reflectedStream where
  "stream_full =
     (new_stream ''lbry://full'')\<lparr>SdHash := ''ab02'', ContentType := ''video/webm'', Size := 0\<rparr>"

definition full_index :: SDBlob where
  "full_index =
     \<lparr>BlobInfos =
        [\<lparr>Length = 2097152, BlobNum = 0, BlobHash = [0x00], IV = [1]\<rparr>,
         \<lparr>Length = 2097152, BlobNum = 1, BlobHash = [0x01], IV = [2]\<rparr>],
      Key = [7]\<rparr>"

text \<open>
  The first stream after its index fetch, and the same stream over an index whose four
  blobs fail in the four ways a blob can fail: refused connection, broken body, a body the
  cipher rejects, and a 404.
\<close>

definition one_index :: SDBlob where
  "one_index =
     \<lparr>BlobInfos =
        [\<lparr>Length = 5, BlobNum = 0, BlobHash = [0x00], IV = [1]\<rparr>,
         \<lparr>Length = 3, BlobNum = 1, BlobHash = [0x01], IV = [2]\<rparr>],
      Key = [7]\<rparr>"

definition stream_ready :: reflectedStream where
  "stream_ready = stream_one\<lparr>SDBlob := Some one_index\<rparr>"

definition bad_index :: SDBlob where
  "bad_index =
     \<lparr>BlobInfos =
        [\<lparr>Length = 5, BlobNum = 0, BlobHash = [0x02], IV = [1]\<rparr>,
         \<lparr>Length = 5, BlobNum = 1, BlobHash = [0x03], IV = [2]\<rparr>,
         \<lparr>Length = 5, BlobNum = 2, BlobHash = [0x04], IV = [3]\<rparr>,
         \<lparr>Length = 5, BlobNum = 3, BlobHash = [0x05], IV = [4]\<rparr>],
      Key = [7]\<rparr>"

definition stream_bad :: reflectedStream where
  "stream_bad = stream_one\<lparr>SDBlob := Some bad_index\<rparr>"

text \<open>
  A world whose transport serves one full-size ciphertext of \<open>2097152\<close> bytes and whose
  cipher strips two bytes of padding from it, and a stream whose index has that single blob.
\<close>

definition env_big :: "real env" where
  "env_big =
     \<lparr>MaxBlobSize = 2097152,
      Resolve = (\<lambda>uri. Inl (Collaborator ''not found'')),
      Get = (\<lambda>url. Inr \<lparr>StatusCode = 200, Status = ''200 OK'',
                         Body = Inr (replicate 2097152 0x55)\<rparr>),
      UnmarshalJSON = (\<lambda>body. Inl (Collaborator ''invalid character'')),
      DecryptBlob = (\<lambda>blob key iv. Inr (take (length blob - 2) blob))\<rparr>"

definition single_index :: SDBlob where
  "single_index =
     \<lparr>BlobInfos = [\<lparr>Length = 2097152, BlobNum = 0, BlobHash = [0x00], IV = [1]\<rparr>],
      Key = [7]\<rparr>"

definition stream_single :: reflectedStream where
  "stream_single = stream_one\<lparr>Size := 2097150, SDBlob := Some single_index\<rparr>"

text \<open>The first stream over an index that has only its first blob.\<close>

definition small_index :: SDBlob where
  "small_index =
     \<lparr>BlobInfos = [\<lparr>Length = 5, BlobNum = 0, BlobHash = [0x00], IV = [1]\<rparr>], Key = [7]\<rparr>"

definition stream_small :: reflectedStream where
  "stream_small = stream_one\<lparr>Size := 5, SDBlob := Some small_index\<rparr>"

text \<open>
  A world with two descriptor documents that do not number their blobs from 0: the first
  numbers them 0 and -1, the second 2 and 1. Each blob has its own two bytes, and the cipher
  hands the body back. The two streams are as \<^verbatim>\<open>resolve\<close> would leave them; the two
  indexes are the documents sorted.
\<close>

definition sd_neg :: SDBlob where
  "sd_neg =
     \<lparr>BlobInfos =
        [\<lparr>Length = 2, BlobNum = 0, BlobHash = [0x0a], IV = [1]\<rparr>,
         \<lparr>Length = 2, BlobNum = - 1, BlobHash = [0x0b], IV = [2]\<rparr>],
      Key = [7]\<rparr>"

definition sd_gap :: SDBlob where
  "sd_gap =
     \<lparr>BlobInfos =
        [\<lparr>Length = 2, BlobNum = 2, BlobHash = [0x0c], IV = [1]\<rparr>,
         \<lparr>Length = 2, BlobNum = 1, BlobHash = [0x0d], IV = [2]\<rparr>],
      Key = [7]\<rparr>"

definition env_num :: "real env" where
  "env_num =
     \<lparr>MaxBlobSize = 2097152,
      Resolve = (\<lambda>uri. Inl (Collaborator ''not found'')),
      Get = (\<lambda>url.
        if url = ''http://blobs.lbry.io/ab03'' then
          Inr \<lparr>StatusCode = 200, Status = ''200 OK'', Body = Inr [3]\<rparr>
        else if url = ''http://blobs.lbry.io/ab04'' then
          Inr \<lparr>StatusCode = 200, Status = ''200 OK'', Body = Inr [4]\<rparr>
        else if url = ''http://blobs.lbry.io/0a'' then
          Inr \<lparr>StatusCode = 200, Status = ''200 OK'', Body = Inr [11, 12]\<rparr>
        else if url = ''http://blobs.lbry.io/0b'' then
          Inr \<lparr>StatusCode = 200, Status = ''200 OK'', Body = Inr [21, 22]\<rparr>
        else if url = ''http://blobs.lbry.io/0c'' then
          Inr \<lparr>StatusCode = 200, Status = ''200 OK'', Body = Inr [31, 32]\<rparr>
        else if url = ''http://blobs.lbry.io/0d'' then
          Inr \<lparr>StatusCode = 200, Status = ''200 OK'', Body = Inr [41, 42]\<rparr>
        else Inr \<lparr>StatusCode = 404, Status = ''404 Not Found'', Body = Inr []\<rparr>),
      UnmarshalJSON = (\<lambda>body.
        if body = [3] then Inr sd_neg
        else if body = [4] then Inr sd_gap
        else Inl (Collaborator ''invalid character'')),
      DecryptBlob = (\<lambda>blob key iv. Inr blob)\<rparr>"

definition stream_neg :: reflectedStream where
  "stream_neg =
     (new_stream ''lbry://neg'')\<lparr>SdHash := ''ab03'', ContentType := ''video/mp4'', Size := 4\<rparr>"

definition stream_gap :: reflectedStream where
  "stream_gap =
     (new_stream ''lbry://gap'')\<lparr>SdHash := ''ab04'', ContentType := ''video/mp4'', Size := 4\<rparr>"

definition neg_index :: SDBlob where
  "neg_index =
     \<lparr>BlobInfos =
        [\<lparr>Length = 2, BlobNum = - 1, BlobHash = [0x0b], IV = [2]\<rparr>,
         \<lparr>Length = 2, BlobNum = 0, BlobHash = [0x0a], IV = [1]\<rparr>],
      Key = [7]\<rparr>"

definition gap_index :: SDBlob where
  "gap_index =
     \<lparr>BlobInfos =
        [\<lparr>Length = 2, BlobNum = 1, BlobHash = [0x0d], IV = [2]\<rparr>,
         \<lparr>Length = 2, BlobNum = 2, BlobHash = [0x0c], IV = [1]\<rparr>],
      Key = [7]\<rparr>"

section \<open>Seek\<close>

text \<open>
  Claim C3. \<^verbatim>\<open>Seek(offset, Start)\<close> sets and returns the cursor \<open>offset\<close>,
  \<^verbatim>\<open>Seek(offset, End)\<close> sets and returns \<open>size - offset\<close>, and \<^verbatim>\<open>Seek(offset, Current)\<close>
  sets and returns \<open>cursor + offset\<close>, whenever that value (an \<^verbatim>\<open>int64\<close>) is not negative.
  Nothing compares the new cursor with the size, so a cursor beyond the size is accepted.
  In particular, for a size that is not negative, \<^verbatim>\<open>Seek(size, Start)\<close> followed by
  \<^verbatim>\<open>Seek(0, Current)\<close> returns the size.
\<close>

theorem Seek_sets_cursor:
  "(0 \<le> sint offset \<longrightarrow>
      Seek s offset io_SeekStart = (s\<lparr>seekOffset := offset\<rparr>, offset, None)) \<and>
   (0 \<le> sint (Size s - offset) \<longrightarrow>
      Seek s offset io_SeekEnd = (s\<lparr>seekOffset := Size s - offset\<rparr>, Size s - offset, None)) \<and>
   (0 \<le> sint (seekOffset s + offset) \<longrightarrow>
      Seek s offset io_SeekCurrent =
        (s\<lparr>seekOffset := seekOffset s + offset\<rparr>, seekOffset s + offset, None)) \<and>
   (0 \<le> sint (Size s) \<longrightarrow>
      Seek (fst (Seek s (Size s) io_SeekStart)) 0 io_SeekCurrent =
        (s\<lparr>seekOffset := Size s\<rparr>, Size s, None))"
  by (simp add: Seek_def io_SeekStart_def io_SeekEnd_def io_SeekCurrent_def)

theorem Seek_sets_cursor_witness:
  "0 \<le> sint (500 :: 64 word) \<and>
   Seek stream0 500 io_SeekStart = (stream0\<lparr>seekOffset := 500\<rparr>, 500, None) \<and>
   0 \<le> sint (Size stream0 - 40) \<and>
   Seek stream0 40 io_SeekEnd = (stream0\<lparr>seekOffset := 60\<rparr>, 60, None) \<and>
   0 \<le> sint (seekOffset stream0 + 500) \<and>
   Seek stream0 500 io_SeekCurrent = (stream0\<lparr>seekOffset := 510\<rparr>, 510, None) \<and>
   0 \<le> sint (Size stream0) \<and>
   Seek (fst (Seek stream0 (Size stream0) io_SeekStart)) 0 io_SeekCurrent =
     (stream0\<lparr>seekOffset := 100\<rparr>, 100, None)"
  using Seek_sets_cursor [where offset = 500 and s = stream0]
    Seek_sets_cursor [where offset = 40 and s = stream0]
  by (simp add: stream0_def new_stream_def)

text \<open>
  Claim C7. A \<^verbatim>\<open>Seek\<close> whose new offset is negative fails with the error
  "seeking before the beginning of file"; a \<^verbatim>\<open>Seek\<close> whose \<open>whence\<close> is none of
  \<^verbatim>\<open>Start\<close>, \<^verbatim>\<open>End\<close>, \<^verbatim>\<open>Current\<close> fails with "invalid seek whence argument"; and a
  \<^verbatim>\<open>Seek\<close> that returns an error leaves the stream, and so the cursor, as it was.
\<close>

theorem Seek_failures:
  "((whence = io_SeekStart \<and> sint offset < 0) \<or>
    (whence = io_SeekEnd \<and> sint (Size s - offset) < 0) \<or>
    (whence = io_SeekCurrent \<and> sint (seekOffset s + offset) < 0) \<longrightarrow>
      Seek s offset whence = (s, 0, Some (errors_New ''seeking before the beginning of file''))) \<and>
   (whence \<noteq> io_SeekStart \<and> whence \<noteq> io_SeekEnd \<and> whence \<noteq> io_SeekCurrent \<longrightarrow>
      Seek s offset whence = (s, 0, Some (errors_New ''invalid seek whence argument''))) \<and>
   (\<forall>e. snd (snd (Seek s offset whence)) = Some e \<longrightarrow> fst (Seek s offset whence) = s)"
  by (simp add: Seek_def io_SeekStart_def io_SeekEnd_def io_SeekCurrent_def)

theorem Seek_failures_witness:
  "sint (- 1 :: 64 word) < 0 \<and>
   Seek stream0 (- 1) io_SeekStart =
     (stream0, 0, Some (errors_New ''seeking before the beginning of file'')) \<and>
   sint (Size stream0 - 101) < 0 \<and>
   Seek stream0 101 io_SeekEnd =
     (stream0, 0, Some (errors_New ''seeking before the beginning of file'')) \<and>
   sint (seekOffset stream0 + (- 11)) < 0 \<and>
   Seek stream0 (- 11) io_SeekCurrent =
     (stream0, 0, Some (errors_New ''seeking before the beginning of file'')) \<and>
   (7 :: 64 word) \<noteq> io_SeekStart \<and> 7 \<noteq> io_SeekEnd \<and> 7 \<noteq> io_SeekCurrent \<and>
   Seek stream0 5 7 = (stream0, 0, Some (errors_New ''invalid seek whence argument'')) \<and>
   seekOffset (fst (Seek stream0 5 7)) = 10"
  using Seek_failures [where whence = io_SeekStart and offset = "- 1" and s = stream0]
    Seek_failures [where whence = io_SeekEnd and offset = 101 and s = stream0]
    Seek_failures [where whence = io_SeekCurrent and offset = "- 11" and s = stream0]
    Seek_failures [where whence = 7 and offset = 5 and s = stream0]
  by (simp add: stream0_def new_stream_def io_SeekStart_def io_SeekEnd_def io_SeekCurrent_def)

section \<open>Resolution\<close>

text \<open>
  Claim C8. An empty URI fails with the error "stream uri is not set" and no call to the
  resolver or the network is made. A resolved stream with a fee amount above zero fails
  with the error "paid stream"; the only call made, also by \<^verbatim>\<open>PlayURI\<close>, is the one to
  the resolver, so no blob is fetched. When the resolver answers and the fee is absent or not
  above zero, the hex-encoded hash, the content type and the size are taken from the
  answer. Whenever \<^verbatim>\<open>resolve\<close> returns an error the stream is left untouched.
\<close>

theorem resolve_rejections:
  fixes env :: "('a::{zero,ord}) env"
  shows
  "(URI s = [] \<longrightarrow>
      resolve env s = ([], s, Some (errors_New ''stream uri is not set''))) \<and>
   PlayURI env [] = ([], Inl (errors_New ''stream uri is not set'')) \<and>
   (URI s \<noteq> [] \<and> Resolve env (URI s) = Inr stream \<and> Fee stream = Some fee \<and> Amount fee > 0 \<longrightarrow>
      resolve env s = ([lbrynet_Resolve (URI s)], s, Some (errors_New ''paid stream'')) \<and>
      PlayURI env (URI s) = ([lbrynet_Resolve (URI s)], Inl (errors_New ''paid stream''))) \<and>
   (URI s \<noteq> [] \<and> Resolve env (URI s) = Inr stream \<and>
    (\<forall>fee. Fee stream = Some fee \<longrightarrow> \<not> Amount fee > 0) \<longrightarrow>
      resolve env s =
        ([lbrynet_Resolve (URI s)],
         s\<lparr>SdHash := hex_EncodeToString (Source.SdHash (Source stream)),
           ContentType := MediaType (Source stream),
           Size := Source.Size (Source stream)\<rparr>,
         None)) \<and>
   (\<forall>e. snd (snd (resolve env s)) = Some e \<longrightarrow> fst (snd (resolve env s)) = s)"
  by (auto simp: resolve_def PlayURI_def newReflectedStream_def new_stream_def
      split: sum.splits option.splits)

theorem resolve_rejections_witness:
  "URI (new_stream []) = [] \<and>
   resolve env0 (new_stream []) = ([], new_stream [], Some (errors_New ''stream uri is not set'')) \<and>
   URI (new_stream ''lbry://paid'') \<noteq> [] \<and>
   (\<exists>stream fee. Resolve env0 ''lbry://paid'' = Inr stream \<and> Fee stream = Some fee \<and>
      Amount fee = 1 / 100 \<and> Amount fee > 0) \<and>
   PlayURI env0 ''lbry://paid'' =
     ([lbrynet_Resolve ''lbry://paid''], Inl (errors_New ''paid stream'')) \<and>
   resolve env0 (new_stream ''lbry://one'') = ([lbrynet_Resolve ''lbry://one''], stream_one, None) \<and>
   resolve env0 (new_stream ''lbry://full'') = ([lbrynet_Resolve ''lbry://full''], stream_full, None) \<and>
   snd (snd (resolve env0 (new_stream ''lbry://none''))) = Some (Collaborator ''not found'') \<and>
   fst (snd (resolve env0 (new_stream ''lbry://none''))) = new_stream ''lbry://none''"
proof -
  have paid: "Resolve env0 ''lbry://paid'' =
      Inr \<lparr>Fee = Some \<lparr>Amount = 1 / 100\<rparr>,
           Source = \<lparr>Source.SdHash = [0xAB, 0x01], MediaType = ''video/mp4'', Source.Size = 8\<rparr>\<rparr>"
    by (simp add: env0_def)
  have one: "Resolve env0 ''lbry://one'' =
      Inr \<lparr>Fee = Some \<lparr>Amount = 0\<rparr>,
           Source = \<lparr>Source.SdHash = [0xAB, 0x01], MediaType = ''video/mp4'', Source.Size = 8\<rparr>\<rparr>"
    by (simp add: env0_def)
  have full: "Resolve env0 ''lbry://full'' =
      Inr \<lparr>Fee = None,
           Source = \<lparr>Source.SdHash = [0xAB, 0x02], MediaType = ''video/webm'', Source.Size = 0\<rparr>\<rparr>"
    by (simp add: env0_def)
  have none: "snd (snd (resolve env0 (new_stream ''lbry://none''))) = Some (Collaborator ''not found'')"
    by (simp add: resolve_def new_stream_def env0_def)
  have hex: "hex_EncodeToString [0xAB, 0x01] = ''ab01''" "hex_EncodeToString [0xAB, 0x02] = ''ab02''"
    by (simp_all add: hex_EncodeToString_def hexdigit_def)
  show ?thesis
    using resolve_rejections [where env = env0 and s = "new_stream []"]
      resolve_rejections [where env = env0 and s = "new_stream ''lbry://paid''"
        and fee = "\<lparr>Amount = 1 / 100\<rparr>"
        and stream = "\<lparr>Fee = Some \<lparr>Amount = 1 / 100\<rparr>,
           Source = \<lparr>Source.SdHash = [0xAB, 0x01], MediaType = ''video/mp4'', Source.Size = 8\<rparr>\<rparr>"]
      resolve_rejections [where env = env0 and s = "new_stream ''lbry://one''"
        and stream = "\<lparr>Fee = Some \<lparr>Amount = 0\<rparr>,
           Source = \<lparr>Source.SdHash = [0xAB, 0x01], MediaType = ''video/mp4'', Source.Size = 8\<rparr>\<rparr>"]
      resolve_rejections [where env = env0 and s = "new_stream ''lbry://full''"
        and stream = "\<lparr>Fee = None,
           Source = \<lparr>Source.SdHash = [0xAB, 0x02], MediaType = ''video/webm'', Source.Size = 0\<rparr>\<rparr>"]
      resolve_rejections [where env = env0 and s = "new_stream ''lbry://none''"]
      paid one full none hex
    by (simp add: new_stream_def stream_one_def stream_full_def)
qed

section \<open>The index fetch\<close>

lemma sint_word_of_int64:
  "- (2 ^ 63) \<le> k \<Longrightarrow> k < 2 ^ 63 \<Longrightarrow> sint (word_of_int k :: 64 word) = k"
  by (simp add: signed_of_int signed_take_bit_int_eq_self)

lemma addSizes_sum:
  "addSizes M bis sz =
     sz + (\<Sum>bi\<leftarrow>bis. if Length bi = word_of_int M then word_of_int (M - 1) else Length bi)"
  by (induction bis arbitrary: sz) (simp_all add: add.assoc)

lemma sum_list_sortBlobInfos:
  "(\<Sum>bi\<leftarrow>sortBlobInfos bis. f bi) = (\<Sum>bi\<leftarrow>bis. (f bi :: 64 word))"
proof -
  have "sum_mset (mset (map f (sortBlobInfos bis))) = sum_mset (mset (map f bis))"
    by (simp add: sortBlobInfos_def)
  then show ?thesis by (simp only: sum_mset_sum_list)
qed

lemma sum_list_const_word:
  "\<forall>x\<in>set xs. f x = (c :: 64 word) \<Longrightarrow> (\<Sum>x\<leftarrow>xs. f x) = of_nat (length xs) * c"
  by (induction xs) (simp_all add: algebra_simps)

text \<open>What a successful \<^verbatim>\<open>fetchData\<close> went through, and what a failed one leaves.\<close>

lemma fetchData_success:
  assumes "fetchData env s = (calls, s', None)"
  shows "\<exists>resp body sdb. SdHash s \<noteq> [] \<and> Get env (URL s) = Inr resp \<and> Body resp = Inr body \<and>
           UnmarshalJSON env body = Inr sdb \<and> calls = [http_Get (URL s)] \<and>
           s' = (if Size s = 0
                 then s\<lparr>Size := addSizes (MaxBlobSize env) (BlobInfos sdb) (Size s) - 15\<rparr>
                 else s)\<lparr>SDBlob := Some (sdb\<lparr>BlobInfos := sortBlobInfos (BlobInfos sdb)\<rparr>)\<rparr>"
  using assms unfolding fetchData_def
  by (simp add: Let_def split: if_splits sum.splits)

lemma fetchData_failure:
  assumes "fetchData env s = (calls, s', Some e)"
  shows "s' = s"
  using assms unfolding fetchData_def
  by (simp add: Let_def split: if_splits sum.splits)

lemma fetch_full:
  "fetchData env0 stream_full =
     ([http_Get ''http://blobs.lbry.io/ab02''],
      stream_full\<lparr>Size := 4194287, SDBlob := Some full_index\<rparr>, None)"
  by (simp add: fetchData_def env0_def stream_full_def new_stream_def URL_def reflectorURL_def
      sd_full_def full_index_def sortBlobInfos_def)

text \<open>
  Claim C4. When the resolved size is not zero, the index fetch leaves it as it is. When it
  is zero, a successful index fetch sets it to the sum, over the blob descriptors of the
  index, of \<open>MaxBlobSize - 1\<close> for a descriptor of declared length \<open>MaxBlobSize\<close> and of the
  declared length otherwise, minus 15 (in \<^verbatim>\<open>int64\<close> arithmetic). For \<open>N\<close> descriptors all of
  declared length \<open>MaxBlobSize\<close> that is \<open>N * (MaxBlobSize - 1) - 15\<close>, also as an integer
  when this value fits in an \<^verbatim>\<open>int64\<close>.
\<close>

theorem fetchData_size:
  "(Size s \<noteq> 0 \<longrightarrow> Size (fst (snd (fetchData env s))) = Size s) \<and>
   (fetchData env s = (calls, s', None) \<longrightarrow>
     (\<exists>sdb. SDBlob s' = Some sdb \<and>
       (Size s = 0 \<longrightarrow>
          Size s' =
            (\<Sum>bi\<leftarrow>BlobInfos sdb.
               if Length bi = word_of_int (MaxBlobSize env)
               then word_of_int (MaxBlobSize env - 1) else Length bi) - 15 \<and>
          ((\<forall>bi\<in>set (BlobInfos sdb). Length bi = word_of_int (MaxBlobSize env)) \<longrightarrow>
             Size s' = of_nat (length (BlobInfos sdb)) * word_of_int (MaxBlobSize env - 1) - 15 \<and>
             (- (2 ^ 63) \<le> int (length (BlobInfos sdb)) * (MaxBlobSize env - 1) - 15 \<and>
              int (length (BlobInfos sdb)) * (MaxBlobSize env - 1) - 15 < 2 ^ 63 \<longrightarrow>
                sint (Size s') = int (length (BlobInfos sdb)) * (MaxBlobSize env - 1) - 15)))))"
proof (intro conjI impI)
  assume nz: "Size s \<noteq> 0"
  obtain c t e where r: "fetchData env s = (c, t, e)"
    by (metis prod_cases3)
  show "Size (fst (snd (fetchData env s))) = Size s"
  proof (cases e)
    case None
    with r fetchData_success [of env s c t] nz show ?thesis by auto
  next
    case (Some err)
    with r fetchData_failure [of env s c t err] show ?thesis by simp
  qed
next
  assume ok: "fetchData env s = (calls, s', None)"
  let ?M = "MaxBlobSize env"
  let ?f = "\<lambda>bi. if Length bi = word_of_int ?M then word_of_int (?M - 1) else Length bi"
  from fetchData_success [OF ok] obtain sdb where
    s': "s' = (if Size s = 0
               then s\<lparr>Size := addSizes ?M (BlobInfos sdb) (Size s) - 15\<rparr>
               else s)\<lparr>SDBlob := Some (sdb\<lparr>BlobInfos := sortBlobInfos (BlobInfos sdb)\<rparr>)\<rparr>"
    by blast
  let ?sdb' = "sdb\<lparr>BlobInfos := sortBlobInfos (BlobInfos sdb)\<rparr>"
  have idx: "SDBlob s' = Some ?sdb'"
    by (simp add: s')
  have est: "Size s' = (\<Sum>bi\<leftarrow>BlobInfos ?sdb'. ?f bi) - 15" if "Size s = 0"
    using that by (simp add: s' addSizes_sum sum_list_sortBlobInfos)
  have full: "Size s' = of_nat (length (BlobInfos ?sdb')) * word_of_int (?M - 1) - 15"
    if "Size s = 0" and all: "\<forall>bi\<in>set (BlobInfos ?sdb'). Length bi = word_of_int ?M"
  proof -
    have "(\<Sum>bi\<leftarrow>BlobInfos ?sdb'. ?f bi) = of_nat (length (BlobInfos ?sdb')) * word_of_int (?M - 1)"
      by (rule sum_list_const_word) (use all in simp)
    with est [OF that(1)] show ?thesis by simp
  qed
  have exact: "sint (Size s') = int (length (BlobInfos ?sdb')) * (?M - 1) - 15"
    if "Size s = 0" and "\<forall>bi\<in>set (BlobInfos ?sdb'). Length bi = word_of_int ?M"
      and "- (2 ^ 63) \<le> int (length (BlobInfos ?sdb')) * (?M - 1) - 15"
      and "int (length (BlobInfos ?sdb')) * (?M - 1) - 15 < 2 ^ 63"
  proof -
    have "Size s' = word_of_int (int (length (BlobInfos ?sdb')) * (?M - 1) - 15)"
      using full [OF that(1,2)] by simp
    then show ?thesis
      using sint_word_of_int64 [OF that(3,4)] by simp
  qed
  show "\<exists>sdb. SDBlob s' = Some sdb \<and>
       (Size s = 0 \<longrightarrow>
          Size s' =
            (\<Sum>bi\<leftarrow>BlobInfos sdb.
               if Length bi = word_of_int (MaxBlobSize env)
               then word_of_int (MaxBlobSize env - 1) else Length bi) - 15 \<and>
          ((\<forall>bi\<in>set (BlobInfos sdb). Length bi = word_of_int (MaxBlobSize env)) \<longrightarrow>
             Size s' = of_nat (length (BlobInfos sdb)) * word_of_int (MaxBlobSize env - 1) - 15 \<and>
             (- (2 ^ 63) \<le> int (length (BlobInfos sdb)) * (MaxBlobSize env - 1) - 15 \<and>
              int (length (BlobInfos sdb)) * (MaxBlobSize env - 1) - 15 < 2 ^ 63 \<longrightarrow>
                sint (Size s') = int (length (BlobInfos sdb)) * (MaxBlobSize env - 1) - 15)))"
    using idx est full exact by blast
qed

theorem fetchData_size_witness:
  "Size stream_one \<noteq> 0 \<and> Size (fst (snd (fetchData env0 stream_one))) = 8 \<and>
   Size stream_full = 0 \<and>
   fetchData env0 stream_full =
     ([http_Get ''http://blobs.lbry.io/ab02''],
      stream_full\<lparr>Size := 4194287, SDBlob := Some full_index\<rparr>, None) \<and>
   map Length (BlobInfos full_index) =
     [word_of_int (MaxBlobSize env0), word_of_int (MaxBlobSize env0)] \<and>
   sint (Size (stream_full\<lparr>Size := 4194287, SDBlob := Some full_index\<rparr>)) = 2 * (2097152 - 1) - 15"
proof -
  let ?s' = "stream_full\<lparr>Size := 4194287, SDBlob := Some full_index\<rparr>"
  have one: "Size stream_one \<noteq> 0"
    by (simp add: stream_one_def)
  have zero: "Size stream_full = 0"
    by (simp add: stream_full_def new_stream_def)
  have M: "MaxBlobSize env0 = 2097152"
    by (simp add: env0_def)
  have all: "\<forall>bi\<in>set (BlobInfos full_index). Length bi = word_of_int (MaxBlobSize env0)"
    by (simp add: full_index_def M)
  have len: "length (BlobInfos full_index) = 2"
    by (simp add: full_index_def)
  from fetchData_size [where env = env0 and s = stream_one] one
  have keep: "Size (fst (snd (fetchData env0 stream_one))) = 8"
    by (simp add: stream_one_def)
  from fetchData_size [where env = env0 and s = stream_full and s' = ?s'
      and calls = "[http_Get ''http://blobs.lbry.io/ab02'']"] fetch_full
  obtain sdb where sdb: "SDBlob ?s' = Some sdb"
    and est: "Size stream_full = 0 \<longrightarrow>
          ((\<forall>bi\<in>set (BlobInfos sdb). Length bi = word_of_int (MaxBlobSize env0)) \<longrightarrow>
             (- (2 ^ 63) \<le> int (length (BlobInfos sdb)) * (MaxBlobSize env0 - 1) - 15 \<and>
              int (length (BlobInfos sdb)) * (MaxBlobSize env0 - 1) - 15 < 2 ^ 63 \<longrightarrow>
                sint (Size ?s') = int (length (BlobInfos sdb)) * (MaxBlobSize env0 - 1) - 15))"
    by blast
  from sdb have "sdb = full_index" by simp
  with est zero all have "sint (Size ?s') = 2 * (2097152 - 1) - 15"
    by (simp add: len M)
  moreover have "map Length (BlobInfos full_index) =
      [word_of_int (MaxBlobSize env0), word_of_int (MaxBlobSize env0)]"
    by (simp add: full_index_def M)
  ultimately show ?thesis
    using one keep zero fetch_full by (intro conjI)
qed

section \<open>The offsets computed by Read\<close>

lemma sint_len: "length xs < 2 ^ 63 \<Longrightarrow> sint (len xs) = int (length xs)"
  unfolding len_def by (simp add: signed_of_nat signed_take_bit_int_eq_self)

lemma word_of_int_sint64: "(word_of_int (sint (w :: 64 word)) :: 64 word) = w"
  by simp

lemma sint_range64: "- (2 ^ 63) \<le> sint (w :: 64 word) \<and> sint w < 2 ^ 63"
  using sint_ge [of w] sint_lt [of w] by simp

lemma int_div_le_self0: "0 \<le> x \<Longrightarrow> x div k \<le> (x :: int)"
  by (cases "x = 0") (simp_all add: int_div_le_self)

lemma sint_blobNum_of:
  assumes "2 < M" "M < 2 ^ 63" "0 \<le> sint c"
  shows "sint (blobNum_of M c) = sint c div (M - 2)"
proof -
  have d: "sint (word_of_int (M - 2) :: 64 word) = M - 2"
    using assms by (intro sint_word_of_int64) auto
  have q: "sint c sdiv (M - 2) = sint c div (M - 2)"
    using assms by (cases "sint c = 0") (auto simp: signed_divide_int_def sgn_if)
  have "0 \<le> sint c div (M - 2)" "sint c div (M - 2) \<le> sint c"
    using assms by (auto simp: pos_imp_zdiv_nonneg_iff intro: int_div_le_self0)
  then have "sint (word_of_int (sint c div (M - 2)) :: 64 word) = sint c div (M - 2)"
    using sint_range64 [of c] by (intro sint_word_of_int64) auto
  then show ?thesis
    unfolding blobNum_of_def go_div_def d q .
qed

lemma sint_startOffsetInBlob_of:
  assumes "2 < M" "M < 2 ^ 63" "0 \<le> sint c"
  shows "sint (startOffsetInBlob_of M c) =
     (let blobNum = sint c div (M - 2)
      in if blobNum = 0 then sint c - blobNum * M else sint c - blobNum * M + blobNum)"
    and "sint (startOffsetInBlob_of M c) = sint c mod (M - 2) - sint c div (M - 2)"
proof -
  let ?q = "sint c div (M - 2)"
  let ?r = "sint c mod (M - 2)"
  have "blobNum_of M c = word_of_int (sint (blobNum_of M c))"
    by (simp only: word_of_int_sint64)
  then have bn: "blobNum_of M c = word_of_int ?q"
    by (simp only: sint_blobNum_of [OF assms])
  have q0: "0 \<le> ?q" and qc: "?q \<le> sint c"
    using assms by (auto simp: pos_imp_zdiv_nonneg_iff intro: int_div_le_self0)
  have r0: "0 \<le> ?r" and rM: "?r < M - 2"
    using assms by auto
  have eq: "sint c - ?q * M + ?q = ?r - ?q"
  proof -
    have "sint c = ?q * (M - 2) + ?r" by (rule div_mult_mod_eq [symmetric])
    then have "sint c - ?q * M + ?q = ?q * (M - 2) + ?r - ?q * M + ?q" by simp
    also have "\<dots> = ?r - ?q" by (simp add: algebra_simps)
    finally show ?thesis .
  qed
  have w: "c - blobNum_of M c * word_of_int M + blobNum_of M c = word_of_int (sint c - ?q * M + ?q)"
    by (simp add: bn)
  have rng: "- (2 ^ 63) \<le> ?r - ?q" "?r - ?q < 2 ^ 63"
    using q0 qc r0 rM assms(2) sint_range64 [of c] by linarith+
  have s: "sint (c - blobNum_of M c * word_of_int M + blobNum_of M c) = ?r - ?q"
    unfolding w eq using rng by (rule sint_word_of_int64)
  have z: "blobNum_of M c = 0 \<longleftrightarrow> ?q = 0"
    using sint_blobNum_of [OF assms] by (metis sint_0 bn of_int_0)
  show "sint (startOffsetInBlob_of M c) = ?r - ?q"
    using s z by (auto simp: startOffsetInBlob_of_def Let_def bn)
  then show "sint (startOffsetInBlob_of M c) =
     (let blobNum = ?q in if blobNum = 0 then sint c - blobNum * M else sint c - blobNum * M + blobNum)"
    using eq by (auto simp: Let_def)
qed

text \<open>
  Claim C1. For a cursor \<open>c \<ge> 0\<close>, \<^verbatim>\<open>Read\<close> addresses the blob
  \<open>blobNum = c div (MaxBlobSize - 2)\<close> and starts in it at the offset
  \<open>c - blobNum * MaxBlobSize\<close> when \<open>blobNum = 0\<close> and at
  \<open>c - blobNum * MaxBlobSize + blobNum\<close> otherwise: these two integers, without any
  wrap-around, are what it hands to \<^verbatim>\<open>streamBlob\<close>. (\<open>MaxBlobSize\<close> is a constant above 2
  that fits in an \<^verbatim>\<open>int64\<close>.)
\<close>

theorem Read_addresses_blob:
  assumes "2 < MaxBlobSize env" "MaxBlobSize env < 2 ^ 63" "0 \<le> sint (seekOffset s)"
  shows "let c = sint (seekOffset s); M = MaxBlobSize env; blobNum = c div (M - 2);
             offsetInBlob = (if blobNum = 0 then c - blobNum * M else c - blobNum * M + blobNum)
         in Read env s p =
              (case streamBlob env s (word_of_int blobNum) (word_of_int offsetInBlob) p of
                 Inl pk \<Rightarrow> Inl pk
               | Inr (calls, p', n, err) \<Rightarrow>
                   Inr (calls, s\<lparr>seekOffset := seekOffset s + n\<rparr>, p', n, err)) \<and>
            sint (word_of_int blobNum :: 64 word) = blobNum \<and>
            sint (word_of_int offsetInBlob :: 64 word) = offsetInBlob"
proof -
  let ?c = "sint (seekOffset s)" and ?M = "MaxBlobSize env"
  let ?q = "?c div (?M - 2)"
  let ?off = "if ?q = 0 then ?c - ?q * ?M else ?c - ?q * ?M + ?q"
  have sq: "sint (blobNum_of ?M (seekOffset s)) = ?q"
    by (rule sint_blobNum_of [OF assms])
  have so: "sint (startOffsetInBlob_of ?M (seekOffset s)) = ?off"
    using sint_startOffsetInBlob_of(1) [OF assms] by (simp add: Let_def)
  have bq: "blobNum_of ?M (seekOffset s) = word_of_int ?q"
    using word_of_int_sint64 [of "blobNum_of ?M (seekOffset s)"] by (simp only: sq)
  have bo: "startOffsetInBlob_of ?M (seekOffset s) = word_of_int ?off"
    using word_of_int_sint64 [of "startOffsetInBlob_of ?M (seekOffset s)"] by (simp only: so)
  have "sint (word_of_int ?q :: 64 word) = ?q"
    using sq by (simp only: bq)
  moreover have "sint (word_of_int ?off :: 64 word) = ?off"
    using so by (simp only: bo)
  moreover have "Read env s p =
      (case streamBlob env s (word_of_int ?q) (word_of_int ?off) p of
         Inl pk \<Rightarrow> Inl pk
       | Inr (calls, p', n, err) \<Rightarrow> Inr (calls, s\<lparr>seekOffset := seekOffset s + n\<rparr>, p', n, err))"
    unfolding Read_def Let_def by (simp only: bq bo)
  ultimately show ?thesis
    unfolding Let_def by (intro conjI)
qed

theorem Read_addresses_blob_witness:
  "2 < MaxBlobSize env0 \<and> MaxBlobSize env0 < 2 ^ 63 \<and>
   0 \<le> sint (seekOffset (stream_ready\<lparr>seekOffset := 2097154\<rparr>)) \<and>
   (2097154 :: int) div (2097152 - 2) = 1 \<and> (2097154 :: int) - 1 * 2097152 + 1 = 3 \<and>
   Read env0 (stream_ready\<lparr>seekOffset := 2097154\<rparr>) [0, 0, 0, 0, 0] =
     (case streamBlob env0 (stream_ready\<lparr>seekOffset := 2097154\<rparr>) 1 3 [0, 0, 0, 0, 0] of
        Inl pk \<Rightarrow> Inl pk
      | Inr (calls, p', n, err) \<Rightarrow>
          Inr (calls,
               (stream_ready\<lparr>seekOffset := 2097154\<rparr>)
                 \<lparr>seekOffset := seekOffset (stream_ready\<lparr>seekOffset := 2097154\<rparr>) + n\<rparr>,
               p', n, err))"
proof -
  have M: "MaxBlobSize env0 = 2097152"
    by (simp add: env0_def)
  have h: "2 < MaxBlobSize env0" "MaxBlobSize env0 < 2 ^ 63"
    "0 \<le> sint (seekOffset (stream_ready\<lparr>seekOffset := 2097154\<rparr>))"
    by (simp_all add: M)
  show ?thesis
    using Read_addresses_blob [OF h, of "[0, 0, 0, 0, 0]"] h
    by (simp add: M Let_def)
qed

section \<open>Reading a blob\<close>

lemma sint_len_plus:
  assumes "length dest < 2 ^ 63" "0 \<le> sint st"
  shows "sint (len dest + st) =
     (if int (length dest) + sint st < 2 ^ 63 then int (length dest) + sint st
      else int (length dest) + sint st - 2 ^ 64)"
proof -
  have r: "sint st < 2 ^ 63" using sint_range64 [of st] by simp
  have e: "len dest + st = word_of_int (int (length dest) + sint st)"
    by (simp add: len_def)
  show ?thesis
  proof (cases "int (length dest) + sint st < 2 ^ 63")
    case True
    then have "sint (word_of_int (int (length dest) + sint st) :: 64 word) =
        int (length dest) + sint st"
      using assms(2) by (intro sint_word_of_int64) auto
    then show ?thesis
      using True by (simp only: e if_True)
  next
    case False
    have "(word_of_int (int (length dest) + sint st) :: 64 word) =
        word_of_int (int (length dest) + sint st - 2 ^ 64)"
      by simp
    moreover have "sint (word_of_int (int (length dest) + sint st - 2 ^ 64) :: 64 word) =
        int (length dest) + sint st - 2 ^ 64"
      using False assms r by (intro sint_word_of_int64) auto
    ultimately show ?thesis
      using False by (simp only: e if_False)
  qed
qed

lemma slice_clamped:
  assumes "length dest < 2 ^ 63" "length dec < 2 ^ 63"
  shows "slice dec st (if sint (len dest + st) > sint (len dec) then len dec else len dest + st) =
     (if 0 \<le> sint st \<and> sint st \<le> int (length dec) \<and> int (length dest) + sint st < 2 ^ 63
      then Inr (take (min (length dest) (length dec - nat (sint st))) (drop (nat (sint st)) dec))
      else Inl SliceBoundsOutOfRange)"
proof (cases "0 \<le> sint st")
  case False
  then show ?thesis by (simp add: slice_def)
next
  case True
  note nn = this
  have L: "sint (len dec) = int (length dec)" by (rule sint_len [OF assms(2)])
  note S = sint_len_plus [OF assms(1) nn]
  show ?thesis
  proof (cases "int (length dest) + sint st < 2 ^ 63")
    case False
    then have "sint (len dest + st) < 0"
      using S assms(1) sint_range64 [of st] by auto
    then show ?thesis
      using False nn by (simp add: slice_def L)
  next
    case True
    then have E: "sint (len dest + st) = int (length dest) + sint st"
      using S by simp
    show ?thesis
    proof (cases "int (length dest) + sint st > int (length dec)")
      case True
      then have "min (length dest) (length dec - nat (sint st)) = length dec - nat (sint st)"
        using nn by auto
      then show ?thesis
        using True nn \<open>int (length dest) + sint st < 2 ^ 63\<close>
        by (auto simp: slice_def L E nat_diff_distrib)
    next
      case False
      then have m: "min (length dest) (length dec - nat (sint st)) = length dest"
        using nn by auto
      have "nat (int (length dest) + sint st) - nat (sint st) = length dest"
        using nn by auto
      then show ?thesis
        using False nn \<open>int (length dest) + sint st < 2 ^ 63\<close>
        by (auto simp: slice_def L E m)
    qed
  qed
qed

lemma copy_short:
  "length src \<le> length dest \<Longrightarrow> copy dest src = (src @ drop (length src) dest, len src)"
  by (simp add: copy_def len_def min_def Let_def)

text \<open>streamBlob when the index has the blob and the blob is fetched and decrypted.\<close>

lemma streamBlob_fetched:
  assumes "SDBlob s = Some sdb" "0 \<le> sint bn" "sint bn < int (length (BlobInfos sdb))"
    and "Get env (blobInfoURL (BlobInfos sdb ! nat (sint bn))) = Inr resp"
    and "StatusCode resp = http_StatusOK" "Body resp = Inr body"
    and "DecryptBlob env body (Key sdb) (IV (BlobInfos sdb ! nat (sint bn))) = Inr dec"
    and "length dest < 2 ^ 63" "length dec < 2 ^ 63"
  shows "streamBlob env s bn st dest =
     (if 0 \<le> sint st \<and> sint st \<le> int (length dec) \<and> int (length dest) + sint st < 2 ^ 63
      then Inr ([http_Get (blobInfoURL (BlobInfos sdb ! nat (sint bn)))],
                take (min (length dest) (length dec - nat (sint st))) (drop (nat (sint st)) dec)
                  @ drop (min (length dest) (length dec - nat (sint st))) dest,
                word_of_nat (min (length dest) (length dec - nat (sint st))), None)
      else Inl SliceBoundsOutOfRange)"
proof -
  let ?k = "min (length dest) (length dec - nat (sint st))"
  let ?src = "take ?k (drop (nat (sint st)) dec)"
  have c: "copy dest ?src = (?src @ drop ?k dest, word_of_nat ?k)"
    if "0 \<le> sint st" "sint st \<le> int (length dec)"
  proof -
    have "length ?src = ?k" using that by auto
    then show ?thesis
      using copy_short [of ?src dest] by (simp add: len_def)
  qed
  show ?thesis
    unfolding streamBlob_def
    using assms(1-7) c
    by (simp add: Let_def slice_clamped [OF assms(8,9)])
qed

lemma Read_fetched:
  assumes "SDBlob s = Some sdb"
    and "bn = blobNum_of (MaxBlobSize env) (seekOffset s)"
    and "st = startOffsetInBlob_of (MaxBlobSize env) (seekOffset s)"
    and "0 \<le> sint bn" "sint bn < int (length (BlobInfos sdb))"
    and "Get env (blobInfoURL (BlobInfos sdb ! nat (sint bn))) = Inr resp"
    and "StatusCode resp = http_StatusOK" "Body resp = Inr body"
    and "DecryptBlob env body (Key sdb) (IV (BlobInfos sdb ! nat (sint bn))) = Inr dec"
    and "length p < 2 ^ 63" "length dec < 2 ^ 63"
  shows "Read env s p =
     (if 0 \<le> sint st \<and> sint st \<le> int (length dec) \<and> int (length p) + sint st < 2 ^ 63
      then Inr ([http_Get (blobInfoURL (BlobInfos sdb ! nat (sint bn)))],
                s\<lparr>seekOffset := seekOffset s + word_of_nat (min (length p) (length dec - nat (sint st)))\<rparr>,
                take (min (length p) (length dec - nat (sint st))) (drop (nat (sint st)) dec)
                  @ drop (min (length p) (length dec - nat (sint st))) p,
                word_of_nat (min (length p) (length dec - nat (sint st))), None)
      else Inl SliceBoundsOutOfRange)"
  unfolding Read_def Let_def assms(2,3) [symmetric]
  by (simp add: streamBlob_fetched [OF assms(1,4-11)])

text \<open>What a returning streamBlob went through.\<close>

lemma streamBlob_Inr:
  assumes "streamBlob env s bn st dest = Inr (calls, dest', n, err)"
  shows "\<exists>sdb. SDBlob s = Some sdb \<and> 0 \<le> sint bn \<and> sint bn < int (length (BlobInfos sdb)) \<and>
           calls = [http_Get (blobInfoURL (BlobInfos sdb ! nat (sint bn)))]"
  using assms unfolding streamBlob_def
  by (auto simp: Let_def split: option.splits if_splits sum.splits prod.splits)

lemma streamBlob_error:
  assumes "streamBlob env s bn st dest = Inr (calls, dest', n, Some e)"
  shows "dest' = dest \<and> n = 0"
  using assms unfolding streamBlob_def
  by (auto simp: Let_def split: option.splits if_splits sum.splits prod.splits)

lemma streamBlob_success:
  assumes "streamBlob env s bn st dest = Inr (calls, dest', n, None)"
  shows "\<exists>sdb resp body dec. SDBlob s = Some sdb \<and> 0 \<le> sint bn \<and>
           sint bn < int (length (BlobInfos sdb)) \<and>
           Get env (blobInfoURL (BlobInfos sdb ! nat (sint bn))) = Inr resp \<and>
           StatusCode resp = http_StatusOK \<and> Body resp = Inr body \<and>
           DecryptBlob env body (Key sdb) (IV (BlobInfos sdb ! nat (sint bn))) = Inr dec"
  using assms unfolding streamBlob_def
  by (auto simp: Let_def split: option.splits if_splits sum.splits prod.splits)

lemmas eval_defs = Read_def streamBlob_def blobNum_of_def startOffsetInBlob_of_def go_div_def
  signed_divide_int_def env0_def blobInfoURL_def reflectorURL_def hex_EncodeToString_def hexdigit_def
  slice_def copy_def len_def http_StatusOK_def stream_ready_def stream_bad_def stream_one_def
  new_stream_def one_index_def bad_index_def Let_def




lemma Read_Inr:
  assumes "Read env s p = Inr (calls, s', p', n, err)"
  shows "streamBlob env s (blobNum_of (MaxBlobSize env) (seekOffset s))
           (startOffsetInBlob_of (MaxBlobSize env) (seekOffset s)) p = Inr (calls, p', n, err) \<and>
         s' = s\<lparr>seekOffset := seekOffset s + n\<rparr>"
  using assms unfolding Read_def
  by (auto simp: Let_def split: sum.splits prod.splits)

text \<open>
  Claim C10. A \<^verbatim>\<open>Read\<close> that returns an error returns 0 bytes and leaves the stream (so the
  cursor) and the buffer as they were. The four ways a blob can fail all end so: a refused
  connection, a status other than 200, a body that cannot be read, a blob that cannot be
  decrypted.
\<close>

theorem Read_failed_keeps_cursor:
  "(Read env s p = Inr (calls, s', p', n, Some e) \<longrightarrow>
      n = 0 \<and> seekOffset s' = seekOffset s \<and> s' = s \<and> p' = p) \<and>
   (SDBlob s = Some sdb \<and> bn = blobNum_of (MaxBlobSize env) (seekOffset s) \<and>
    0 \<le> sint bn \<and> sint bn < int (length (BlobInfos sdb)) \<and>
    url = blobInfoURL (BlobInfos sdb ! nat (sint bn)) \<longrightarrow>
      (Get env url = Inl err \<longrightarrow>
         Read env s p = Inr ([http_Get url], s, p, 0, Some err)) \<and>
      (Get env url = Inr resp \<and> StatusCode resp \<noteq> http_StatusOK \<longrightarrow>
         Read env s p =
           Inr ([http_Get url], s, p, 0,
                Some (fmt_Errorf (''server responded with an unexpected status (''
                                  @ Status resp @ '')'')))) \<and>
      (Get env url = Inr resp \<and> StatusCode resp = http_StatusOK \<and> Body resp = Inl err \<longrightarrow>
         Read env s p = Inr ([http_Get url], s, p, 0, Some err)) \<and>
      (Get env url = Inr resp \<and> StatusCode resp = http_StatusOK \<and> Body resp = Inr body \<and>
       DecryptBlob env body (Key sdb) (IV (BlobInfos sdb ! nat (sint bn))) = Inl err \<longrightarrow>
         Read env s p = Inr ([http_Get url], s, p, 0, Some err)))"
proof (intro conjI impI)
  assume r: "Read env s p = Inr (calls, s', p', n, Some e)"
  from Read_Inr [OF r] streamBlob_error
  have "p' = p \<and> n = 0" and "s' = s\<lparr>seekOffset := seekOffset s + n\<rparr>"
    by blast+
  then show "n = 0" "seekOffset s' = seekOffset s" "s' = s" "p' = p"
    by simp_all
qed (auto simp: Read_def streamBlob_def Let_def)


theorem Read_failed_keeps_cursor_witness:
  "Get env0 ''http://blobs.lbry.io/02'' = Inl (Collaborator ''connection refused'') \<and>
   Read env0 stream_bad [9, 9, 9] =
     Inr ([http_Get ''http://blobs.lbry.io/02''], stream_bad, [9, 9, 9], 0,
          Some (Collaborator ''connection refused'')) \<and>
   Read env0 (stream_bad\<lparr>seekOffset := 2097151\<rparr>) [9, 9, 9] =
     Inr ([http_Get ''http://blobs.lbry.io/03''], stream_bad\<lparr>seekOffset := 2097151\<rparr>, [9, 9, 9], 0,
          Some (Collaborator ''unexpected EOF'')) \<and>
   Read env0 (stream_bad\<lparr>seekOffset := 4194302\<rparr>) [9, 9, 9] =
     Inr ([http_Get ''http://blobs.lbry.io/04''], stream_bad\<lparr>seekOffset := 4194302\<rparr>, [9, 9, 9], 0,
          Some (Collaborator ''invalid blob'')) \<and>
   Read env0 (stream_bad\<lparr>seekOffset := 6291453\<rparr>) [9, 9, 9] =
     Inr ([http_Get ''http://blobs.lbry.io/05''], stream_bad\<lparr>seekOffset := 6291453\<rparr>, [9, 9, 9], 0,
          Some (fmt_Errorf ''server responded with an unexpected status (404 Not Found)''))"
proof -
  have urls: "blobInfoURL (BlobInfos bad_index ! nat (sint (0 :: 64 word))) = ''http://blobs.lbry.io/02''"
    "blobInfoURL (BlobInfos bad_index ! nat (sint (1 :: 64 word))) = ''http://blobs.lbry.io/03''"
    "blobInfoURL (BlobInfos bad_index ! nat (sint (2 :: 64 word))) = ''http://blobs.lbry.io/04''"
    "blobInfoURL (BlobInfos bad_index ! nat (sint (3 :: 64 word))) = ''http://blobs.lbry.io/05''"
    by (simp_all add: bad_index_def blobInfoURL_def reflectorURL_def hex_EncodeToString_def
        hexdigit_def)
  have nums: "blobNum_of (MaxBlobSize env0) 0 = 0" "blobNum_of (MaxBlobSize env0) 2097151 = 1"
    "blobNum_of (MaxBlobSize env0) 4194302 = 2" "blobNum_of (MaxBlobSize env0) 6291453 = 3"
    by (simp_all add: env0_def blobNum_of_def go_div_def signed_divide_int_def)
  have idx: "SDBlob stream_bad = Some bad_index" "length (BlobInfos bad_index) = 4"
    "seekOffset stream_bad = 0" "Key bad_index = [7]"
    by (simp_all add: stream_bad_def stream_one_def new_stream_def bad_index_def)
  have gets: "Get env0 ''http://blobs.lbry.io/02'' = Inl (Collaborator ''connection refused'')"
    "Get env0 ''http://blobs.lbry.io/03'' =
       Inr \<lparr>StatusCode = 200, Status = ''200 OK'', Body = Inl (Collaborator ''unexpected EOF'')\<rparr>"
    "Get env0 ''http://blobs.lbry.io/04'' =
       Inr \<lparr>StatusCode = 200, Status = ''200 OK'', Body = Inr []\<rparr>"
    "Get env0 ''http://blobs.lbry.io/05'' =
       Inr \<lparr>StatusCode = 404, Status = ''404 Not Found'', Body = Inr []\<rparr>"
    "DecryptBlob env0 [] [7] [3] = Inl (Collaborator ''invalid blob'')"
    by (simp_all add: env0_def)
  note th = Read_failed_keeps_cursor [where env = env0 and sdb = bad_index and p = "[9, 9, 9]"]
  have h0: "SDBlob stream_bad = Some bad_index \<and>
      0 = blobNum_of (MaxBlobSize env0) (seekOffset stream_bad) \<and>
      0 \<le> sint (0 :: 64 word) \<and> sint (0 :: 64 word) < int (length (BlobInfos bad_index)) \<and>
      ''http://blobs.lbry.io/02'' = blobInfoURL (BlobInfos bad_index ! nat (sint (0 :: 64 word)))"
    by (simp only: urls) (simp add: nums idx)
  have h1: "SDBlob (stream_bad\<lparr>seekOffset := 2097151\<rparr>) = Some bad_index \<and>
      1 = blobNum_of (MaxBlobSize env0) (seekOffset (stream_bad\<lparr>seekOffset := 2097151\<rparr>)) \<and>
      0 \<le> sint (1 :: 64 word) \<and> sint (1 :: 64 word) < int (length (BlobInfos bad_index)) \<and>
      ''http://blobs.lbry.io/03'' = blobInfoURL (BlobInfos bad_index ! nat (sint (1 :: 64 word)))"
    by (simp only: urls) (simp add: nums idx)
  have h2: "SDBlob (stream_bad\<lparr>seekOffset := 4194302\<rparr>) = Some bad_index \<and>
      2 = blobNum_of (MaxBlobSize env0) (seekOffset (stream_bad\<lparr>seekOffset := 4194302\<rparr>)) \<and>
      0 \<le> sint (2 :: 64 word) \<and> sint (2 :: 64 word) < int (length (BlobInfos bad_index)) \<and>
      ''http://blobs.lbry.io/04'' = blobInfoURL (BlobInfos bad_index ! nat (sint (2 :: 64 word)))"
    by (simp only: urls) (simp add: nums idx)
  have h3: "SDBlob (stream_bad\<lparr>seekOffset := 6291453\<rparr>) = Some bad_index \<and>
      3 = blobNum_of (MaxBlobSize env0) (seekOffset (stream_bad\<lparr>seekOffset := 6291453\<rparr>)) \<and>
      0 \<le> sint (3 :: 64 word) \<and> sint (3 :: 64 word) < int (length (BlobInfos bad_index)) \<and>
      ''http://blobs.lbry.io/05'' = blobInfoURL (BlobInfos bad_index ! nat (sint (3 :: 64 word)))"
    by (simp only: urls) (simp add: nums idx)
  have iv: "IV (BlobInfos bad_index ! 2) = [3]"
    by (simp add: bad_index_def)
  from th [where s = stream_bad and bn = 0 and url = "''http://blobs.lbry.io/02''"
      and err = "Collaborator ''connection refused''",
      THEN conjunct2, THEN mp, OF h0, THEN conjunct1, THEN mp, OF gets(1)]
  have r0: "Read env0 stream_bad [9, 9, 9] =
     Inr ([http_Get ''http://blobs.lbry.io/02''], stream_bad, [9, 9, 9], 0,
          Some (Collaborator ''connection refused''))" .
  from th [where s = "stream_bad\<lparr>seekOffset := 2097151\<rparr>" and bn = 1
      and url = "''http://blobs.lbry.io/03''" and err = "Collaborator ''unexpected EOF''"
      and resp = "\<lparr>StatusCode = 200, Status = ''200 OK'',
                   Body = Inl (Collaborator ''unexpected EOF'')\<rparr>",
      THEN conjunct2, THEN mp, OF h1, THEN conjunct2, THEN conjunct2, THEN conjunct1, THEN mp]
    gets(2)
  have r1: "Read env0 (stream_bad\<lparr>seekOffset := 2097151\<rparr>) [9, 9, 9] =
     Inr ([http_Get ''http://blobs.lbry.io/03''], stream_bad\<lparr>seekOffset := 2097151\<rparr>, [9, 9, 9], 0,
          Some (Collaborator ''unexpected EOF''))"
    by (simp add: http_StatusOK_def)
  from th [where s = "stream_bad\<lparr>seekOffset := 4194302\<rparr>" and bn = 2
      and url = "''http://blobs.lbry.io/04''" and err = "Collaborator ''invalid blob''"
      and body = "[]"
      and resp = "\<lparr>StatusCode = 200, Status = ''200 OK'', Body = Inr []\<rparr>",
      THEN conjunct2, THEN mp, OF h2, THEN conjunct2, THEN conjunct2, THEN conjunct2, THEN mp]
    gets(3,5)
  have r2: "Read env0 (stream_bad\<lparr>seekOffset := 4194302\<rparr>) [9, 9, 9] =
     Inr ([http_Get ''http://blobs.lbry.io/04''], stream_bad\<lparr>seekOffset := 4194302\<rparr>, [9, 9, 9], 0,
          Some (Collaborator ''invalid blob''))"
    by (simp add: http_StatusOK_def iv idx(4))
  from th [where s = "stream_bad\<lparr>seekOffset := 6291453\<rparr>" and bn = 3
      and url = "''http://blobs.lbry.io/05''"
      and resp = "\<lparr>StatusCode = 404, Status = ''404 Not Found'', Body = Inr []\<rparr>",
      THEN conjunct2, THEN mp, OF h3, THEN conjunct2, THEN conjunct1, THEN mp]
    gets(4)
  have r3: "Read env0 (stream_bad\<lparr>seekOffset := 6291453\<rparr>) [9, 9, 9] =
     Inr ([http_Get ''http://blobs.lbry.io/05''], stream_bad\<lparr>seekOffset := 6291453\<rparr>, [9, 9, 9], 0,
          Some (fmt_Errorf ''server responded with an unexpected status (404 Not Found)''))"
    by (simp add: http_StatusOK_def)
  from gets(1) r0 r1 r2 r3 show ?thesis
    by (intro conjI)
qed

text \<open>
  Claim C2. A \<^verbatim>\<open>Read\<close> that returns without error has fetched exactly one blob, the one
  the cursor addresses, and decrypted it to \<open>dec\<close>. With \<open>offset\<close> the starting offset in
  that blob and \<open>endOffset = min (offset + length p) (length dec)\<close>, the offset lies within
  the blob, the number of bytes returned is \<open>endOffset - offset\<close>, the buffer starts with
  \<open>dec[offset:endOffset]\<close> and is unchanged after that, and the cursor has advanced by the
  number of bytes returned. (Buffers and blobs have fewer than \<open>2^63\<close> bytes.)
\<close>

theorem Read_success:
  assumes "Read env s p = Inr (calls, s', p', n, None)"
  shows "\<exists>sdb bi resp body dec.
     SDBlob s = Some sdb \<and>
     0 \<le> sint (blobNum_of (MaxBlobSize env) (seekOffset s)) \<and>
     sint (blobNum_of (MaxBlobSize env) (seekOffset s)) < int (length (BlobInfos sdb)) \<and>
     bi = BlobInfos sdb ! nat (sint (blobNum_of (MaxBlobSize env) (seekOffset s))) \<and>
     Get env (blobInfoURL bi) = Inr resp \<and> StatusCode resp = http_StatusOK \<and>
     Body resp = Inr body \<and> DecryptBlob env body (Key sdb) (IV bi) = Inr dec \<and>
     calls = [http_Get (blobInfoURL bi)] \<and>
     s' = s\<lparr>seekOffset := seekOffset s + n\<rparr> \<and>
     (length p < 2 ^ 63 \<and> length dec < 2 ^ 63 \<longrightarrow>
        (let offset = sint (startOffsetInBlob_of (MaxBlobSize env) (seekOffset s));
             endOffset = min (offset + int (length p)) (int (length dec))
         in 0 \<le> offset \<and> offset \<le> int (length dec) \<and>
            sint n = endOffset - offset \<and>
            p' = take (nat (endOffset - offset)) (drop (nat offset) dec)
                   @ drop (nat (endOffset - offset)) p))"
proof -
  let ?bn = "blobNum_of (MaxBlobSize env) (seekOffset s)"
  let ?st = "startOffsetInBlob_of (MaxBlobSize env) (seekOffset s)"
  from Read_Inr [OF assms] have sb: "streamBlob env s ?bn ?st p = Inr (calls, p', n, None)"
    and s': "s' = s\<lparr>seekOffset := seekOffset s + n\<rparr>"
    by simp_all
  from streamBlob_success [OF sb] obtain sdb resp body dec where
    f: "SDBlob s = Some sdb" "0 \<le> sint ?bn" "sint ?bn < int (length (BlobInfos sdb))"
      "Get env (blobInfoURL (BlobInfos sdb ! nat (sint ?bn))) = Inr resp"
      "StatusCode resp = http_StatusOK" "Body resp = Inr body"
      "DecryptBlob env body (Key sdb) (IV (BlobInfos sdb ! nat (sint ?bn))) = Inr dec"
    by blast
  from streamBlob_Inr [OF sb] f(1)
  have c: "calls = [http_Get (blobInfoURL (BlobInfos sdb ! nat (sint ?bn)))]"
    by simp
  have d: "let offset = sint ?st;
               endOffset = min (offset + int (length p)) (int (length dec))
           in 0 \<le> offset \<and> offset \<le> int (length dec) \<and> sint n = endOffset - offset \<and>
              p' = take (nat (endOffset - offset)) (drop (nat offset) dec)
                     @ drop (nat (endOffset - offset)) p"
    if l: "length p < 2 ^ 63" "length dec < 2 ^ 63"
  proof -
    let ?k = "min (length p) (length dec - nat (sint ?st))"
    note sf = streamBlob_fetched [OF f l, of ?st]
    from sb sf have ok: "0 \<le> sint ?st" "sint ?st \<le> int (length dec)"
      and res: "p' = take ?k (drop (nat (sint ?st)) dec) @ drop ?k p" "n = word_of_nat ?k"
      by (simp_all split: if_splits)
    have k: "int ?k = min (sint ?st + int (length p)) (int (length dec)) - sint ?st"
      using ok by auto
    have "?k < 2 ^ 63" using l(1) by simp
    then have "sint n = int ?k"
      unfolding res(2) by (simp add: signed_of_nat signed_take_bit_int_eq_self)
    moreover have "nat (min (sint ?st + int (length p)) (int (length dec)) - sint ?st) = ?k"
      using k by (simp only: nat_int flip: k)
    ultimately show ?thesis
      using ok res(1) k by (simp add: Let_def)
  qed
  show ?thesis
    using f c s' d by blast
qed


theorem Read_success_witness:
  "Read env0 (stream_ready\<lparr>seekOffset := 2\<rparr>) [9, 9, 9, 9, 9] =
     Inr ([http_Get ''http://blobs.lbry.io/00''], stream_ready\<lparr>seekOffset := 5\<rparr>,
          [30, 40, 50, 9, 9], 3, None) \<and>
   (\<exists>dec. DecryptBlob env0 [10, 20, 30, 40, 50] [7] [1] = Inr dec \<and>
      length [9, 9, 9, 9, 9 :: byte] < 2 ^ 63 \<and> length dec < 2 ^ 63 \<and>
      sint (startOffsetInBlob_of (MaxBlobSize env0) 2) = 2 \<and> 2 \<le> int (length dec) \<and>
      sint (3 :: 64 word) = min (2 + int (length [9, 9, 9, 9, 9 :: byte])) (int (length dec)) - 2 \<and>
      [30, 40, 50, 9, 9] = take 3 (drop 2 dec) @ drop 3 [9, 9, 9, 9, 9])"
proof -
  let ?s = "stream_ready\<lparr>seekOffset := 2\<rparr>"
  have r: "Read env0 ?s [9, 9, 9, 9, 9] =
     Inr ([http_Get ''http://blobs.lbry.io/00''], stream_ready\<lparr>seekOffset := 5\<rparr>,
          [30, 40, 50, 9, 9], 3, None)"
    by (simp add: eval_defs)
  have o: "sint (startOffsetInBlob_of (MaxBlobSize env0) (seekOffset ?s)) = 2"
    "nat (sint (blobNum_of (MaxBlobSize env0) (seekOffset ?s))) = 0"
    by (simp_all add: env0_def startOffsetInBlob_of_def blobNum_of_def go_div_def)
  obtain sdb bi resp body dec where
    f: "SDBlob ?s = Some sdb"
      "bi = BlobInfos sdb ! nat (sint (blobNum_of (MaxBlobSize env0) (seekOffset ?s)))"
      "Get env0 (blobInfoURL bi) = Inr resp" "Body resp = Inr body"
      "DecryptBlob env0 body (Key sdb) (IV bi) = Inr dec"
    and g: "length [9, 9, 9, 9, 9 :: byte] < 2 ^ 63 \<and> length dec < 2 ^ 63 \<longrightarrow>
        (let offset = sint (startOffsetInBlob_of (MaxBlobSize env0) (seekOffset ?s));
             endOffset = min (offset + int (length [9, 9, 9, 9, 9 :: byte])) (int (length dec))
         in 0 \<le> offset \<and> offset \<le> int (length dec) \<and>
            sint (3 :: 64 word) = endOffset - offset \<and>
            [30, 40, 50, 9, 9] = take (nat (endOffset - offset)) (drop (nat offset) dec)
                   @ drop (nat (endOffset - offset)) [9, 9, 9, 9, 9])"
    using Read_success [OF r] by (elim exE conjE) (rule that; assumption)
  from f(1) have sdb: "sdb = one_index"
    by (simp add: stream_ready_def)
  from f(2) have bi: "bi = \<lparr>Length = 5, BlobNum = 0, BlobHash = [0x00], IV = [1]\<rparr>"
    unfolding o(2) sdb by (simp add: one_index_def)
  have u: "blobInfoURL bi = ''http://blobs.lbry.io/00''"
    unfolding bi by (simp add: blobInfoURL_def reflectorURL_def hex_EncodeToString_def hexdigit_def)
  from f(3,4) have body: "body = [10, 20, 30, 40, 50]"
    unfolding u by (auto simp: env0_def)
  from f(5) have d: "DecryptBlob env0 [10, 20, 30, 40, 50] [7] [1] = Inr dec"
    unfolding body sdb bi by (simp add: one_index_def)
  then have dec: "dec = [10, 20, 30, 40, 50]"
    by (simp add: env0_def)
  have l: "length [9, 9, 9, 9, 9 :: byte] < 2 ^ 63" "length dec < 2 ^ 63"
    by (simp_all add: dec)
  from g l have "let offset = sint (startOffsetInBlob_of (MaxBlobSize env0) (seekOffset ?s));
             endOffset = min (offset + int (length [9, 9, 9, 9, 9 :: byte])) (int (length dec))
         in 0 \<le> offset \<and> offset \<le> int (length dec) \<and>
            sint (3 :: 64 word) = endOffset - offset \<and>
            [30, 40, 50, 9, 9] = take (nat (endOffset - offset)) (drop (nat offset) dec)
                   @ drop (nat (endOffset - offset)) [9, 9, 9, 9, 9]"
    by (rule mp [OF _ conjI])
  then have c: "2 \<le> int (length dec)"
    "sint (3 :: 64 word) = min (2 + int (length [9, 9, 9, 9, 9 :: byte])) (int (length dec)) - 2"
    "[30, 40, 50, 9, 9] = take 3 (drop 2 dec) @ drop 3 [9, 9, 9, 9, 9 :: byte]"
    unfolding o(1) Let_def by (simp_all add: dec)
  have o': "sint (startOffsetInBlob_of (MaxBlobSize env0) 2) = 2"
    using o(1) by simp
  show ?thesis
    by (intro conjI exI [of _ dec]) (fact r d l o' c)+
qed

section \<open>The end of a blob\<close>

lemma Read_out_of_range:
  assumes "SDBlob s = Some sdb"
    "int (length (BlobInfos sdb)) \<le> sint (blobNum_of (MaxBlobSize env) (seekOffset s))"
  shows "Read env s p = Inl IndexOutOfRange"
  using assms by (simp add: Read_def streamBlob_def Let_def)

lemma blobNum_of_small:
  assumes "2 < M" "M < 2 ^ 63" "0 \<le> sint c" "sint c < M - 2"
  shows "blobNum_of M c = 0" "startOffsetInBlob_of M c = c"
proof -
  have "sint (blobNum_of M c) = 0"
    using sint_blobNum_of [OF assms(1-3)] assms(3,4) by simp
  then show z: "blobNum_of M c = 0"
    using word_of_int_sint64 [of "blobNum_of M c"] by simp
  show "startOffsetInBlob_of M c = c"
    by (simp add: startOffsetInBlob_of_def z)
qed

lemma Read_at_length:
  assumes "SDBlob s = Some sdb"
    and "bn = blobNum_of (MaxBlobSize env) (seekOffset s)"
    and "0 \<le> sint bn" "sint bn < int (length (BlobInfos sdb))"
    and "Get env (blobInfoURL (BlobInfos sdb ! nat (sint bn))) = Inr resp"
    and "StatusCode resp = http_StatusOK" "Body resp = Inr body"
    and "DecryptBlob env body (Key sdb) (IV (BlobInfos sdb ! nat (sint bn))) = Inr dec"
    and "length p + length dec < 2 ^ 63"
    and "sint (startOffsetInBlob_of (MaxBlobSize env) (seekOffset s)) = int (length dec)"
  shows "Read env s p = Inr ([http_Get (blobInfoURL (BlobInfos sdb ! nat (sint bn)))], s, p, 0, None)"
proof -
  have l: "length p < 2 ^ 63" "length dec < 2 ^ 63"
    using assms(9) by simp_all
  have c: "int (length p) + int (length dec) < 2 ^ 63"
    using assms(9) by (metis of_nat_add of_nat_less_numeral_power_cancel_iff)
  show ?thesis
    using Read_fetched [OF assms(1,2) refl assms(3-8) l] c
    by (simp add: assms(10))
qed


lemma Read_whole_blob:
  assumes "SDBlob s = Some sdb" "BlobInfos sdb = [bi]" "seekOffset s = 0"
    and "Get env (blobInfoURL bi) = Inr resp" "StatusCode resp = http_StatusOK"
    and "Body resp = Inr body" "DecryptBlob env body (Key sdb) (IV bi) = Inr dec"
    and "length dec < 2 ^ 63" "length p = length dec"
  shows "Read env s p =
     Inr ([http_Get (blobInfoURL bi)], s\<lparr>seekOffset := len dec\<rparr>, dec, len dec, None)"
proof -
  have z: "blobNum_of (MaxBlobSize env) (seekOffset s) = 0"
    "startOffsetInBlob_of (MaxBlobSize env) (seekOffset s) = 0"
    by (simp_all add: blobNum_of_def startOffsetInBlob_of_def go_div_def assms(3))
  have n: "BlobInfos sdb ! nat (sint (0 :: 64 word)) = bi"
    by (simp add: assms(2))
  have "length p < 2 ^ 63" using assms(8,9) by simp
  from Read_fetched [OF assms(1) z(1) [symmetric] z(2) [symmetric], of resp body dec p]
    this assms(2,4-8)
  show ?thesis
    by (simp add: assms(3,9) len_def)
qed

text \<open>
  Claim C6, amended. A \<^verbatim>\<open>Read\<close> whose offset within the addressed blob equals the length of
  the decrypted blob returns 0 bytes and no error, and moves nothing. For a stream of a
  single blob, a \<^verbatim>\<open>Read\<close> at cursor 0 into a buffer of the plaintext's length returns
  exactly the plaintext, whatever that length is; when the plaintext is shorter than
  \<open>MaxBlobSize - 2\<close>, the \<^verbatim>\<open>Read\<close> after it returns 0 bytes and no error.
\<close>

theorem Read_at_end_of_blob:
  "(SDBlob s = Some sdb \<and> bn = blobNum_of (MaxBlobSize env) (seekOffset s) \<and>
    0 \<le> sint bn \<and> sint bn < int (length (BlobInfos sdb)) \<and>
    bi = BlobInfos sdb ! nat (sint bn) \<and>
    Get env (blobInfoURL bi) = Inr resp \<and> StatusCode resp = http_StatusOK \<and>
    Body resp = Inr body \<and> DecryptBlob env body (Key sdb) (IV bi) = Inr dec \<and>
    length p + length dec < 2 ^ 63 \<and>
    sint (startOffsetInBlob_of (MaxBlobSize env) (seekOffset s)) = int (length dec) \<longrightarrow>
      Read env s p = Inr ([http_Get (blobInfoURL bi)], s, p, 0, None)) \<and>
   (SDBlob s = Some sdb \<and> BlobInfos sdb = [bi] \<and> seekOffset s = 0 \<and>
    Get env (blobInfoURL bi) = Inr resp \<and> StatusCode resp = http_StatusOK \<and>
    Body resp = Inr body \<and> DecryptBlob env body (Key sdb) (IV bi) = Inr dec \<and>
    length dec < 2 ^ 63 \<and> length p = length dec \<longrightarrow>
      Read env s p =
        Inr ([http_Get (blobInfoURL bi)], s\<lparr>seekOffset := len dec\<rparr>, dec, len dec, None) \<and>
      (2 < MaxBlobSize env \<and> MaxBlobSize env < 2 ^ 63 \<and>
       int (length dec) < MaxBlobSize env - 2 \<and> length q + length dec < 2 ^ 63 \<longrightarrow>
         Read env (s\<lparr>seekOffset := len dec\<rparr>) q =
           Inr ([http_Get (blobInfoURL bi)], s\<lparr>seekOffset := len dec\<rparr>, q, 0, None)))"
proof (intro conjI impI; elim conjE)
  assume "SDBlob s = Some sdb" "bn = blobNum_of (MaxBlobSize env) (seekOffset s)"
    "0 \<le> sint bn" "sint bn < int (length (BlobInfos sdb))"
    "bi = BlobInfos sdb ! nat (sint bn)"
    "Get env (blobInfoURL bi) = Inr resp" "StatusCode resp = http_StatusOK"
    "Body resp = Inr body" "DecryptBlob env body (Key sdb) (IV bi) = Inr dec"
    "length p + length dec < 2 ^ 63"
    "sint (startOffsetInBlob_of (MaxBlobSize env) (seekOffset s)) = int (length dec)"
  then show "Read env s p = Inr ([http_Get (blobInfoURL bi)], s, p, 0, None)"
    using Read_at_length [of s sdb bn env resp body dec p] by simp
next
  assume a: "SDBlob s = Some sdb" "BlobInfos sdb = [bi]" "seekOffset s = 0"
    "Get env (blobInfoURL bi) = Inr resp" "StatusCode resp = http_StatusOK"
    "Body resp = Inr body" "DecryptBlob env body (Key sdb) (IV bi) = Inr dec"
    "length dec < 2 ^ 63" "length p = length dec"
  show "Read env s p =
      Inr ([http_Get (blobInfoURL bi)], s\<lparr>seekOffset := len dec\<rparr>, dec, len dec, None)"
    by (rule Read_whole_blob [OF a])
next
  assume b: "SDBlob s = Some sdb" "BlobInfos sdb = [bi]" "seekOffset s = 0"
    "Get env (blobInfoURL bi) = Inr resp" "StatusCode resp = http_StatusOK"
    "Body resp = Inr body" "DecryptBlob env body (Key sdb) (IV bi) = Inr dec"
    "length dec < 2 ^ 63" "length p = length dec"
    "2 < MaxBlobSize env" "MaxBlobSize env < 2 ^ 63"
    "int (length dec) < MaxBlobSize env - 2" "length q + length dec < 2 ^ 63"
  note a = b(1-3) b(10,11) b(4-7) b(12) b(9) b(13)
  let ?s = "s\<lparr>seekOffset := len dec\<rparr>"
  have l: "length dec < 2 ^ 63" by (rule b(8))
  have sl: "sint (len dec) = int (length dec)" by (rule sint_len [OF l])
  have z: "blobNum_of (MaxBlobSize env) (len dec) = 0"
    "startOffsetInBlob_of (MaxBlobSize env) (len dec) = len dec"
    using blobNum_of_small [OF a(4,5), of "len dec"] a(10) by (simp_all add: sl)
  have "Read env ?s q =
      Inr ([http_Get (blobInfoURL (BlobInfos sdb ! nat (sint (0 :: 64 word))))], ?s, q, 0, None)"
    by (rule Read_at_length [where sdb = sdb and resp = resp and body = body and dec = dec])
      (use a z sl in simp_all)
  then show "Read env ?s q = Inr ([http_Get (blobInfoURL bi)], ?s, q, 0, None)"
    by (simp add: a(2))
qed

theorem Read_at_end_of_blob_witness:
  "sint (startOffsetInBlob_of (MaxBlobSize env0) (seekOffset (stream_ready\<lparr>seekOffset := 2097154\<rparr>)))
     = int (length [60, 70, 80 :: byte]) \<and>
   Read env0 (stream_ready\<lparr>seekOffset := 2097154\<rparr>) [9, 9, 9] =
     Inr ([http_Get ''http://blobs.lbry.io/01''], stream_ready\<lparr>seekOffset := 2097154\<rparr>,
          [9, 9, 9], 0, None) \<and>
   int (length [10, 20, 30, 40, 50 :: byte]) < MaxBlobSize env0 - 2 \<and>
   Read env0 stream_small [9, 9, 9, 9, 9] =
     Inr ([http_Get ''http://blobs.lbry.io/00''], stream_small\<lparr>seekOffset := 5\<rparr>,
          [10, 20, 30, 40, 50], 5, None) \<and>
   Read env0 (stream_small\<lparr>seekOffset := 5\<rparr>) [9, 9, 9] =
     Inr ([http_Get ''http://blobs.lbry.io/00''], stream_small\<lparr>seekOffset := 5\<rparr>,
          [9, 9, 9], 0, None)"
proof -
  let ?s = "stream_ready\<lparr>seekOffset := 2097154\<rparr>"
  let ?b0 = "\<lparr>Length = 5, BlobNum = 0, BlobHash = [0x00], IV = [1]\<rparr> :: BlobInfo"
  let ?b1 = "\<lparr>Length = 3, BlobNum = 1, BlobHash = [0x01], IV = [2]\<rparr> :: BlobInfo"
  let ?r0 = "\<lparr>StatusCode = 200, Status = ''200 OK'', Body = Inr [10, 20, 30, 40, 50]\<rparr>"
  let ?r1 = "\<lparr>StatusCode = 200, Status = ''200 OK'', Body = Inr [60, 70, 80]\<rparr>"
  have u: "blobInfoURL ?b0 = ''http://blobs.lbry.io/00''"
    "blobInfoURL ?b1 = ''http://blobs.lbry.io/01''"
    by (simp_all add: blobInfoURL_def reflectorURL_def hex_EncodeToString_def hexdigit_def)
  have M: "MaxBlobSize env0 = 2097152"
    by (simp add: env0_def)
  have g: "Get env0 ''http://blobs.lbry.io/00'' = Inr ?r0" "Get env0 ''http://blobs.lbry.io/01'' = Inr ?r1"
    "DecryptBlob env0 [10, 20, 30, 40, 50] [7] [1] = Inr [10, 20, 30, 40, 50]"
    "DecryptBlob env0 [60, 70, 80] [7] [2] = Inr [60, 70, 80]"
    by (simp_all add: env0_def)
  have o: "sint (startOffsetInBlob_of 2097152 2097154) = 3" "blobNum_of 2097152 2097154 = 1"
    by (simp_all add: startOffsetInBlob_of_def blobNum_of_def go_div_def signed_divide_int_def)
  have a: "Read env0 ?s [9, 9, 9] = Inr ([http_Get (blobInfoURL ?b1)], ?s, [9, 9, 9], 0, None)"
    by (rule Read_at_end_of_blob [where env = env0 and s = ?s and sdb = one_index and bn = 1
          and bi = ?b1 and resp = ?r1 and body = "[60, 70, 80]" and dec = "[60, 70, 80]"
          and p = "[9, 9, 9]", THEN conjunct1, THEN mp])
      (simp add: u g M o stream_ready_def one_index_def http_StatusOK_def)
  have b0: "Read env0 stream_small [9, 9, 9, 9, 9] =
        Inr ([http_Get (blobInfoURL ?b0)], stream_small\<lparr>seekOffset := len [10, 20, 30, 40, 50 :: byte]\<rparr>,
             [10, 20, 30, 40, 50], len [10, 20, 30, 40, 50 :: byte], None) \<and>
      (2 < MaxBlobSize env0 \<and> MaxBlobSize env0 < 2 ^ 63 \<and>
       int (length [10, 20, 30, 40, 50 :: byte]) < MaxBlobSize env0 - 2 \<and>
       length [9, 9, 9 :: byte] + length [10, 20, 30, 40, 50 :: byte] < 2 ^ 63 \<longrightarrow>
      Read env0 (stream_small\<lparr>seekOffset := len [10, 20, 30, 40, 50 :: byte]\<rparr>) [9, 9, 9] =
        Inr ([http_Get (blobInfoURL ?b0)], stream_small\<lparr>seekOffset := len [10, 20, 30, 40, 50 :: byte]\<rparr>,
             [9, 9, 9], 0, None))"
    by (rule Read_at_end_of_blob [where env = env0 and s = stream_small and sdb = small_index
          and bi = ?b0 and resp = ?r0 and body = "[10, 20, 30, 40, 50]"
          and dec = "[10, 20, 30, 40, 50]" and p = "[9, 9, 9, 9, 9]" and q = "[9, 9, 9]",
          THEN conjunct2, THEN mp])
      (simp add: u g stream_small_def stream_one_def new_stream_def small_index_def
        http_StatusOK_def)
  have b2: "2 < MaxBlobSize env0 \<and> MaxBlobSize env0 < 2 ^ 63 \<and>
       int (length [10, 20, 30, 40, 50 :: byte]) < MaxBlobSize env0 - 2 \<and>
       length [9, 9, 9 :: byte] + length [10, 20, 30, 40, 50 :: byte] < 2 ^ 63"
    by (simp add: M)
  have b: "Read env0 stream_small [9, 9, 9, 9, 9] =
        Inr ([http_Get (blobInfoURL ?b0)], stream_small\<lparr>seekOffset := len [10, 20, 30, 40, 50 :: byte]\<rparr>,
             [10, 20, 30, 40, 50], len [10, 20, 30, 40, 50 :: byte], None) \<and>
      Read env0 (stream_small\<lparr>seekOffset := len [10, 20, 30, 40, 50 :: byte]\<rparr>) [9, 9, 9] =
        Inr ([http_Get (blobInfoURL ?b0)], stream_small\<lparr>seekOffset := len [10, 20, 30, 40, 50 :: byte]\<rparr>,
             [9, 9, 9], 0, None)"
    using b0 [THEN conjunct1] b0 [THEN conjunct2, THEN mp, OF b2] by (rule conjI)
  have l: "len [10, 20, 30, 40, 50 :: byte] = 5"
    by (simp add: len_def)
  show ?thesis
    using a b by (simp add: u l M o)
qed


text \<open>
  Claim C6 as first stated, with an offset greater than or equal to the length and a
  follow-up \<^verbatim>\<open>Read\<close> on a single blob of any length, fails at two inputs. With an offset beyond the length of the decrypted
  blob the slice bounds are out of range: at cursor 2097155 the offset in the last blob is 4
  and the blob has 3 bytes. With a single blob whose plaintext has \<open>MaxBlobSize - 2\<close> bytes,
  the \<^verbatim>\<open>Read\<close> after the one that returned the whole plaintext addresses blob number 1,
  which the index does not have.
\<close>

theorem Read_past_end_counterexample:
  "DecryptBlob env0 [60, 70, 80] [7] [2] = Inr [60, 70, 80] \<and>
   int (length [60, 70, 80 :: byte]) \<le> sint (startOffsetInBlob_of (MaxBlobSize env0) 2097155) \<and>
   Read env0 (stream_ready\<lparr>seekOffset := 2097155\<rparr>) [9, 9, 9] = Inl SliceBoundsOutOfRange \<and>
   Read env_big stream_single (replicate 2097150 0) =
     Inr ([http_Get ''http://blobs.lbry.io/00''], stream_single\<lparr>seekOffset := 2097150\<rparr>,
          replicate 2097150 0x55, 2097150, None) \<and>
   Read env_big (stream_single\<lparr>seekOffset := 2097150\<rparr>) (replicate 2097150 0) =
     Inl IndexOutOfRange"
proof -
  let ?b = "\<lparr>Length = 2097152, BlobNum = 0, BlobHash = [0x00], IV = [1]\<rparr> :: BlobInfo"
  let ?r = "\<lparr>StatusCode = 200, Status = ''200 OK'', Body = Inr (replicate 2097152 0x55)\<rparr>"
  have d: "DecryptBlob env0 [60, 70, 80] [7] [2] = Inr [60, 70, 80]"
    by (simp add: env0_def)
  have o: "int (length [60, 70, 80 :: byte]) \<le> sint (startOffsetInBlob_of (MaxBlobSize env0) 2097155)"
    by (simp add: env0_def startOffsetInBlob_of_def blobNum_of_def go_div_def signed_divide_int_def)
  have p: "Read env0 (stream_ready\<lparr>seekOffset := 2097155\<rparr>) [9, 9, 9] = Inl SliceBoundsOutOfRange"
    by (simp add: eval_defs)
  have u: "blobInfoURL ?b = ''http://blobs.lbry.io/00''"
    by (simp add: blobInfoURL_def reflectorURL_def hex_EncodeToString_def hexdigit_def)
  have i: "SDBlob stream_single = Some single_index" "BlobInfos single_index = [?b]"
    "seekOffset stream_single = 0" "Key single_index = [7]"
    by (simp_all add: stream_single_def stream_one_def new_stream_def single_index_def)
  have g: "Get env_big (blobInfoURL ?b) = Inr ?r"
    by (simp add: env_big_def)
  have c: "DecryptBlob env_big (replicate 2097152 0x55) (Key single_index) (IV ?b) =
      Inr (replicate 2097150 0x55)"
    by (simp add: env_big_def)
  have "Read env_big stream_single (replicate 2097150 0) =
      Inr ([http_Get (blobInfoURL ?b)],
           stream_single\<lparr>seekOffset := len (replicate 2097150 (0x55 :: byte))\<rparr>,
           replicate 2097150 0x55, len (replicate 2097150 (0x55 :: byte)), None)"
    by (rule Read_whole_blob [OF i(1,2,3) g _ _ c]) (simp_all add: http_StatusOK_def)
  then have q: "Read env_big stream_single (replicate 2097150 0) =
     Inr ([http_Get ''http://blobs.lbry.io/00''], stream_single\<lparr>seekOffset := 2097150\<rparr>,
          replicate 2097150 0x55, 2097150, None)"
    by (simp add: u len_def)
  have r: "Read env_big (stream_single\<lparr>seekOffset := 2097150\<rparr>) (replicate 2097150 0) =
     Inl IndexOutOfRange"
    by (rule Read_out_of_range [where sdb = single_index])
      (simp_all add: i env_big_def blobNum_of_def go_div_def signed_divide_int_def)
  from d o p q r show ?thesis
    by (intro conjI)
qed

section \<open>The order of the index\<close>

lemma fetch_one:
  "fetchData env0 stream_one = ([http_Get ''http://blobs.lbry.io/ab01''], stream_ready, None)"
  by (simp add: fetchData_def env0_def stream_ready_def stream_one_def new_stream_def URL_def
      reflectorURL_def sd_one_def one_index_def sortBlobInfos_def)

lemma sorted_first_least:
  assumes "sorted (map f xs)" "xs \<noteq> []"
  shows "\<forall>x\<in>set xs. f (xs ! 0) \<le> (f x :: int)"
  using assms by (cases xs) auto

lemma Seek_keeps_index: "SDBlob (fst (Seek s offset whence)) = SDBlob s"
  by (simp add: Seek_def split: option.splits)

lemma Read_keeps_index:
  "Read env s p = Inr (calls, s', p', n, err) \<Longrightarrow> SDBlob s' = SDBlob s"
  using Read_Inr [of env s p calls s' p' n err] by simp

lemma offsets_at_zero:
  "blobNum_of M 0 = 0" "startOffsetInBlob_of M 0 = 0"
  by (simp_all add: blobNum_of_def startOffsetInBlob_of_def go_div_def)

lemma Read_at_zero:
  assumes "SDBlob s = Some sdb" "seekOffset s = 0"
    and "Read env s p = Inr (calls, s', p', n, None)"
  shows "BlobInfos sdb \<noteq> [] \<and> calls = [http_Get (blobInfoURL (BlobInfos sdb ! 0))] \<and>
    (\<exists>resp body dec. Get env (blobInfoURL (BlobInfos sdb ! 0)) = Inr resp \<and> Body resp = Inr body \<and>
       DecryptBlob env body (Key sdb) (IV (BlobInfos sdb ! 0)) = Inr dec \<and>
       (length p < 2 ^ 63 \<and> length dec < 2 ^ 63 \<longrightarrow>
          sint n = min (int (length p)) (int (length dec)) \<and>
          p' = take (nat (sint n)) dec @ drop (nat (sint n)) p))"
proof -
  from Read_Inr [OF assms(3)]
  have sb: "streamBlob env s 0 0 p = Inr (calls, p', n, None)"
    by (simp add: assms(2) offsets_at_zero)
  from streamBlob_success [OF sb] assms(1) obtain resp body dec where
    f: "0 \<le> sint (0 :: 64 word)" "sint (0 :: 64 word) < int (length (BlobInfos sdb))"
      "Get env (blobInfoURL (BlobInfos sdb ! nat (sint (0 :: 64 word)))) = Inr resp"
      "StatusCode resp = http_StatusOK" "Body resp = Inr body"
      "DecryptBlob env body (Key sdb) (IV (BlobInfos sdb ! nat (sint (0 :: 64 word)))) = Inr dec"
    by auto
  from streamBlob_Inr [OF sb] assms(1)
  have c: "calls = [http_Get (blobInfoURL (BlobInfos sdb ! 0))]"
    by simp
  have ne: "BlobInfos sdb \<noteq> []"
    using f(2) by auto
  have d: "sint n = min (int (length p)) (int (length dec)) \<and>
          p' = take (nat (sint n)) dec @ drop (nat (sint n)) p"
    if l: "length p < 2 ^ 63" "length dec < 2 ^ 63"
  proof -
    let ?k = "min (length p) (length dec)"
    from streamBlob_fetched [OF assms(1) f l, of 0] sb l(1)
    have res: "p' = take ?k dec @ drop ?k p" "n = word_of_nat ?k"
      by simp_all
    have "?k < 2 ^ 63" using l(1) by simp
    then have "sint n = int ?k"
      unfolding res(2) by (simp add: signed_of_nat signed_take_bit_int_eq_self)
    then show ?thesis
      using res(1) by simp
  qed
  from f(3,5,6) have "Get env (blobInfoURL (BlobInfos sdb ! 0)) = Inr resp \<and> Body resp = Inr body \<and>
       DecryptBlob env body (Key sdb) (IV (BlobInfos sdb ! 0)) = Inr dec"
    by simp
  with ne c d show ?thesis by blast
qed

text \<open>
  Claim C9, amended. After a successful index fetch the index holds the descriptors of the
  wire document, sorted by ascending sequence number, with the same key. \<^verbatim>\<open>Seek\<close> and a
  returning \<^verbatim>\<open>Read\<close> leave the index as it is. Consequently a successful \<^verbatim>\<open>Read\<close> at
  cursor 0 fetches the blob of an entry whose sequence number is the lowest of the document
  and returns the first bytes of its plaintext; that sequence number is 0 whenever the
  document has an entry numbered 0 and none with a negative number.
\<close>

theorem index_sorted_after_fetch:
  assumes "fetchData env s = (calls, s1, None)"
  shows "\<exists>wire sdb.
     (\<exists>resp body. Get env (URL s) = Inr resp \<and> Body resp = Inr body \<and>
        UnmarshalJSON env body = Inr wire) \<and>
     SDBlob s1 = Some sdb \<and>
     sorted (map (\<lambda>bi. sint (BlobNum bi)) (BlobInfos sdb)) \<and>
     mset (BlobInfos sdb) = mset (BlobInfos wire) \<and> Key sdb = Key wire \<and>
     (\<forall>s2 offset whence. SDBlob s2 = Some sdb \<longrightarrow>
        SDBlob (fst (Seek s2 offset whence)) = Some sdb) \<and>
     (\<forall>s2 p calls2 s3 p' n err.
        SDBlob s2 = Some sdb \<and> Read env s2 p = Inr (calls2, s3, p', n, err) \<longrightarrow>
        SDBlob s3 = Some sdb) \<and>
     (\<forall>s2 p calls2 s3 p' n.
        SDBlob s2 = Some sdb \<and> seekOffset s2 = 0 \<and>
        Read env s2 p = Inr (calls2, s3, p', n, None) \<longrightarrow>
          (\<exists>bi0\<in>set (BlobInfos wire).
             (\<forall>bi\<in>set (BlobInfos wire). sint (BlobNum bi0) \<le> sint (BlobNum bi)) \<and>
             ((\<exists>bi\<in>set (BlobInfos wire). BlobNum bi = 0) \<and>
              (\<forall>bi\<in>set (BlobInfos wire). 0 \<le> sint (BlobNum bi)) \<longrightarrow> BlobNum bi0 = 0) \<and>
             calls2 = [http_Get (blobInfoURL bi0)] \<and>
             (\<exists>resp body dec. Get env (blobInfoURL bi0) = Inr resp \<and> Body resp = Inr body \<and>
                DecryptBlob env body (Key wire) (IV bi0) = Inr dec \<and>
                (length p < 2 ^ 63 \<and> length dec < 2 ^ 63 \<longrightarrow>
                   sint n = min (int (length p)) (int (length dec)) \<and>
                   p' = take (nat (sint n)) dec @ drop (nat (sint n)) p))))"
proof -
  from fetchData_success [OF assms] obtain resp body wire where
    w: "Get env (URL s) = Inr resp" "Body resp = Inr body" "UnmarshalJSON env body = Inr wire"
    and s1: "s1 = (if Size s = 0
               then s\<lparr>Size := addSizes (MaxBlobSize env) (BlobInfos wire) (Size s) - 15\<rparr>
               else s)\<lparr>SDBlob := Some (wire\<lparr>BlobInfos := sortBlobInfos (BlobInfos wire)\<rparr>)\<rparr>"
    by blast
  let ?sdb = "wire\<lparr>BlobInfos := sortBlobInfos (BlobInfos wire)\<rparr>"
  let ?b = "BlobInfos ?sdb ! 0"
  have i: "SDBlob s1 = Some ?sdb"
    by (simp add: s1)
  have so: "sorted (map (\<lambda>bi. sint (BlobNum bi)) (BlobInfos ?sdb))"
    by (simp add: sortBlobInfos_def)
  have ms: "mset (BlobInfos ?sdb) = mset (BlobInfos wire)" and k: "Key ?sdb = Key wire"
    by (simp_all add: sortBlobInfos_def)
  have st: "set (BlobInfos ?sdb) = set (BlobInfos wire)"
    using ms by (rule mset_eq_setD)
  have sk: "\<forall>s2 offset whence. SDBlob s2 = Some ?sdb \<longrightarrow>
        SDBlob (fst (Seek s2 offset whence)) = Some ?sdb"
    by (simp add: Seek_keeps_index)
  have rd: "\<forall>s2 p calls2 s3 p' n err.
        SDBlob s2 = Some ?sdb \<and> Read env s2 p = Inr (calls2, s3, p', n, err) \<longrightarrow>
        SDBlob s3 = Some ?sdb"
  proof (intro allI impI, elim conjE)
    fix s2 p calls2 s3 p' n err
    assume "SDBlob s2 = Some ?sdb" "Read env s2 p = Inr (calls2, s3, p', n, err)"
    then show "SDBlob s3 = Some ?sdb"
      using Read_keeps_index [of env s2 p calls2 s3 p' n err] by simp
  qed
  have z: "\<exists>bi0\<in>set (BlobInfos wire).
             (\<forall>bi\<in>set (BlobInfos wire). sint (BlobNum bi0) \<le> sint (BlobNum bi)) \<and>
             ((\<exists>bi\<in>set (BlobInfos wire). BlobNum bi = 0) \<and>
              (\<forall>bi\<in>set (BlobInfos wire). 0 \<le> sint (BlobNum bi)) \<longrightarrow> BlobNum bi0 = 0) \<and>
             calls2 = [http_Get (blobInfoURL bi0)] \<and>
             (\<exists>resp body dec. Get env (blobInfoURL bi0) = Inr resp \<and> Body resp = Inr body \<and>
                DecryptBlob env body (Key wire) (IV bi0) = Inr dec \<and>
                (length p < 2 ^ 63 \<and> length dec < 2 ^ 63 \<longrightarrow>
                   sint n = min (int (length p)) (int (length dec)) \<and>
                   p' = take (nat (sint n)) dec @ drop (nat (sint n)) p))"
    if h: "SDBlob s2 = Some ?sdb" "seekOffset s2 = 0"
      "Read env s2 p = Inr (calls2, s3, p', n, None)"
    for s2 p calls2 s3 p' n
  proof -
    from Read_at_zero [OF h]
    have ne: "BlobInfos ?sdb \<noteq> []" and c: "calls2 = [http_Get (blobInfoURL ?b)]"
      and d: "\<exists>resp body dec. Get env (blobInfoURL ?b) = Inr resp \<and> Body resp = Inr body \<and>
                DecryptBlob env body (Key ?sdb) (IV ?b) = Inr dec \<and>
                (length p < 2 ^ 63 \<and> length dec < 2 ^ 63 \<longrightarrow>
                   sint n = min (int (length p)) (int (length dec)) \<and>
                   p' = take (nat (sint n)) dec @ drop (nat (sint n)) p)"
      by simp_all
    have m: "?b \<in> set (BlobInfos wire)"
      using ne nth_mem [of 0 "BlobInfos ?sdb"] unfolding st by simp
    have least: "\<forall>bi\<in>set (BlobInfos wire). sint (BlobNum ?b) \<le> sint (BlobNum bi)"
      using sorted_first_least [OF so ne] unfolding st .
    have zero: "BlobNum ?b = 0"
      if "\<exists>bi\<in>set (BlobInfos wire). BlobNum bi = 0"
        "\<forall>bi\<in>set (BlobInfos wire). 0 \<le> sint (BlobNum bi)"
    proof -
      from that(1) obtain b where b: "b \<in> set (BlobInfos wire)" "BlobNum b = 0"
        by blast
      have "sint (BlobNum ?b) \<le> 0"
        using least [rule_format, OF b(1)] b(2) by simp
      moreover have "0 \<le> sint (BlobNum ?b)"
        using that(2) [rule_format, OF m] .
      ultimately have "sint (BlobNum ?b) = 0"
        by simp
      then show ?thesis
        using word_of_int_sint64 [of "BlobNum ?b"] by simp
    qed
    from d have d': "\<exists>resp body dec. Get env (blobInfoURL ?b) = Inr resp \<and> Body resp = Inr body \<and>
                DecryptBlob env body (Key wire) (IV ?b) = Inr dec \<and>
                (length p < 2 ^ 63 \<and> length dec < 2 ^ 63 \<longrightarrow>
                   sint n = min (int (length p)) (int (length dec)) \<and>
                   p' = take (nat (sint n)) dec @ drop (nat (sint n)) p)"
      unfolding k .
    have cond: "(\<exists>bi\<in>set (BlobInfos wire). BlobNum bi = 0) \<and>
        (\<forall>bi\<in>set (BlobInfos wire). 0 \<le> sint (BlobNum bi)) \<longrightarrow> BlobNum ?b = 0"
      by (intro impI, elim conjE, rule zero)
    show ?thesis
      by (rule bexI [where x = ?b, OF _ m]) (intro conjI; fact least cond c d')
  qed
  have w': "\<exists>resp body. Get env (URL s) = Inr resp \<and> Body resp = Inr body \<and>
        UnmarshalJSON env body = Inr wire"
    using w by blast
  have zz: "\<forall>s2 p calls2 s3 p' n.
        SDBlob s2 = Some ?sdb \<and> seekOffset s2 = 0 \<and>
        Read env s2 p = Inr (calls2, s3, p', n, None) \<longrightarrow>
          (\<exists>bi0\<in>set (BlobInfos wire).
             (\<forall>bi\<in>set (BlobInfos wire). sint (BlobNum bi0) \<le> sint (BlobNum bi)) \<and>
             ((\<exists>bi\<in>set (BlobInfos wire). BlobNum bi = 0) \<and>
              (\<forall>bi\<in>set (BlobInfos wire). 0 \<le> sint (BlobNum bi)) \<longrightarrow> BlobNum bi0 = 0) \<and>
             calls2 = [http_Get (blobInfoURL bi0)] \<and>
             (\<exists>resp body dec. Get env (blobInfoURL bi0) = Inr resp \<and> Body resp = Inr body \<and>
                DecryptBlob env body (Key wire) (IV bi0) = Inr dec \<and>
                (length p < 2 ^ 63 \<and> length dec < 2 ^ 63 \<longrightarrow>
                   sint n = min (int (length p)) (int (length dec)) \<and>
                   p' = take (nat (sint n)) dec @ drop (nat (sint n)) p)))"
    by (intro allI impI, elim conjE) (rule z)
  show ?thesis
    by (rule exI [of _ wire], rule exI [of _ ?sdb]) (intro conjI; fact w' i so ms k sk rd zz)
qed

theorem index_sorted_after_fetch_witness:
  "fetchData env0 stream_one = ([http_Get ''http://blobs.lbry.io/ab01''], stream_ready, None) \<and>
   UnmarshalJSON env0 [1] = Inr sd_one \<and>
   map BlobNum (BlobInfos sd_one) = [1, 0] \<and>
   map BlobNum (BlobInfos (the (SDBlob stream_ready))) = [0, 1] \<and>
   SDBlob (fst (Seek stream_ready 4 io_SeekStart)) = SDBlob stream_ready \<and>
   Read env0 stream_ready [9, 9, 9] =
     Inr ([http_Get ''http://blobs.lbry.io/00''], stream_ready\<lparr>seekOffset := 3\<rparr>,
          [10, 20, 30], 3, None) \<and>
   SDBlob (stream_ready\<lparr>seekOffset := 3\<rparr>) = SDBlob stream_ready \<and>
   (\<exists>bi0. bi0 \<in> set (BlobInfos sd_one) \<and> BlobNum bi0 = 0 \<and>
      [http_Get ''http://blobs.lbry.io/00''] = [http_Get (blobInfoURL bi0)] \<and>
      DecryptBlob env0 [10, 20, 30, 40, 50] (Key sd_one) (IV bi0) = Inr [10, 20, 30, 40, 50] \<and>
      [10, 20, 30] = take 3 [10, 20, 30, 40, 50 :: byte] @ drop 3 [9, 9, 9])"
proof -
  let ?b0 = "\<lparr>Length = 5, BlobNum = 0, BlobHash = [0x00], IV = [1]\<rparr> :: BlobInfo"
  have r: "Read env0 stream_ready [9, 9, 9] =
     Inr ([http_Get ''http://blobs.lbry.io/00''], stream_ready\<lparr>seekOffset := 3\<rparr>,
          [10, 20, 30], 3, None)"
    by (simp add: eval_defs)
  have i: "SDBlob stream_ready = Some one_index" "seekOffset stream_ready = 0"
    by (simp_all add: stream_ready_def stream_one_def new_stream_def)
  obtain wire sdb resp body where
    w: "Get env0 (URL stream_one) = Inr resp" "Body resp = Inr body"
      "UnmarshalJSON env0 body = Inr wire"
    and s: "SDBlob stream_ready = Some sdb"
    and keep: "\<forall>s2 offset whence. SDBlob s2 = Some sdb \<longrightarrow>
        SDBlob (fst (Seek s2 offset whence)) = Some sdb"
      "\<forall>s2 p calls2 s3 p' n err.
        SDBlob s2 = Some sdb \<and> Read env0 s2 p = Inr (calls2, s3, p', n, err) \<longrightarrow>
        SDBlob s3 = Some sdb"
    and z: "\<forall>s2 p calls2 s3 p' n.
        SDBlob s2 = Some sdb \<and> seekOffset s2 = 0 \<and>
        Read env0 s2 p = Inr (calls2, s3, p', n, None) \<longrightarrow>
          (\<exists>bi0\<in>set (BlobInfos wire).
             (\<forall>bi\<in>set (BlobInfos wire). sint (BlobNum bi0) \<le> sint (BlobNum bi)) \<and>
             ((\<exists>bi\<in>set (BlobInfos wire). BlobNum bi = 0) \<and>
              (\<forall>bi\<in>set (BlobInfos wire). 0 \<le> sint (BlobNum bi)) \<longrightarrow> BlobNum bi0 = 0) \<and>
             calls2 = [http_Get (blobInfoURL bi0)] \<and>
             (\<exists>resp body dec. Get env0 (blobInfoURL bi0) = Inr resp \<and> Body resp = Inr body \<and>
                DecryptBlob env0 body (Key wire) (IV bi0) = Inr dec \<and>
                (length p < 2 ^ 63 \<and> length dec < 2 ^ 63 \<longrightarrow>
                   sint n = min (int (length p)) (int (length dec)) \<and>
                   p' = take (nat (sint n)) dec @ drop (nat (sint n)) p)))"
    using index_sorted_after_fetch [OF fetch_one] by (elim exE conjE) (rule that; assumption)
  have u: "URL stream_one = ''http://blobs.lbry.io/ab01''"
    by (simp add: URL_def reflectorURL_def stream_one_def)
  from w have wire: "wire = sd_one"
    unfolding u by (auto simp: env0_def split: if_splits)
  have h: "(\<exists>bi\<in>set (BlobInfos sd_one). BlobNum bi = 0) \<and>
      (\<forall>bi\<in>set (BlobInfos sd_one). 0 \<le> sint (BlobNum bi))"
    by (simp add: sd_one_def)
  from z [rule_format, of stream_ready "[9, 9, 9]", OF conjI [OF s conjI [OF i(2) r]]]
  obtain bi0 where
    m: "bi0 \<in> set (BlobInfos wire)"
    and cond: "(\<exists>bi\<in>set (BlobInfos wire). BlobNum bi = 0) \<and>
        (\<forall>bi\<in>set (BlobInfos wire). 0 \<le> sint (BlobNum bi)) \<longrightarrow> BlobNum bi0 = 0"
    and c: "[http_Get ''http://blobs.lbry.io/00''] = [http_Get (blobInfoURL bi0)]"
    by (elim bexE conjE) (rule that; assumption)
  have b: "bi0 \<in> set (BlobInfos sd_one)" "BlobNum bi0 = 0"
    using m cond [unfolded wire, THEN mp, OF h] unfolding wire by simp_all
  from b have bi0: "bi0 = ?b0"
    by (auto simp: sd_one_def)
  have d: "DecryptBlob env0 [10, 20, 30, 40, 50] (Key sd_one) (IV bi0) = Inr [10, 20, 30, 40, 50]"
    by (simp add: env0_def)
  have mm: "map BlobNum (BlobInfos sd_one) = [1, 0]"
    "map BlobNum (BlobInfos (the (SDBlob stream_ready))) = [0, 1]"
    by (simp_all add: sd_one_def i one_index_def)
  have k1: "SDBlob (fst (Seek stream_ready 4 io_SeekStart)) = SDBlob stream_ready"
    using keep(1) [rule_format, of stream_ready 4 io_SeekStart] s by simp
  have k2: "SDBlob (stream_ready\<lparr>seekOffset := 3\<rparr>) = SDBlob stream_ready"
    using keep(2) [rule_format, OF conjI [OF s r]] s by simp
  have j: "UnmarshalJSON env0 [1] = Inr sd_one"
    by (simp add: env0_def)
  have t: "[10, 20, 30] = take 3 [10, 20, 30, 40, 50 :: byte] @ drop 3 [9, 9, 9]"
    by simp
  show ?thesis
    by (intro conjI exI [of _ bi0]) (fact fetch_one j mm k1 r k2 b c d t)+
qed

text \<open>
  Claim C9 as first stated, with sequence number 0 for every document, fails at two
  documents. One numbers its blobs 0 and -1: the index fetch succeeds, the sorted index
  starts with the entry numbered -1, and the \<^verbatim>\<open>Read\<close> at cursor 0 returns the bytes of that
  blob, not those of the blob numbered 0. The other numbers its blobs 2 and 1 and has no
  entry numbered 0: the \<^verbatim>\<open>Read\<close> at cursor 0 returns the bytes of the blob numbered 1.
\<close>

theorem index_first_blob_counterexample:
  "UnmarshalJSON env_num [3] = Inr sd_neg \<and>
   map (\<lambda>bi. (BlobNum bi, BlobHash bi)) (BlobInfos sd_neg) = [(0, [0x0a]), (- 1, [0x0b])] \<and>
   fetchData env_num stream_neg =
     ([http_Get ''http://blobs.lbry.io/ab03''], stream_neg\<lparr>SDBlob := Some neg_index\<rparr>, None) \<and>
   map (\<lambda>bi. (BlobNum bi, BlobHash bi)) (BlobInfos neg_index) = [(- 1, [0x0b]), (0, [0x0a])] \<and>
   seekOffset (stream_neg\<lparr>SDBlob := Some neg_index\<rparr>) = 0 \<and>
   Read env_num (stream_neg\<lparr>SDBlob := Some neg_index\<rparr>) [9, 9] =
     Inr ([http_Get ''http://blobs.lbry.io/0b''],
          stream_neg\<lparr>SDBlob := Some neg_index, seekOffset := 2\<rparr>, [21, 22], 2, None) \<and>
   UnmarshalJSON env_num [4] = Inr sd_gap \<and>
   map (\<lambda>bi. (BlobNum bi, BlobHash bi)) (BlobInfos sd_gap) = [(2, [0x0c]), (1, [0x0d])] \<and>
   fetchData env_num stream_gap =
     ([http_Get ''http://blobs.lbry.io/ab04''], stream_gap\<lparr>SDBlob := Some gap_index\<rparr>, None) \<and>
   map (\<lambda>bi. (BlobNum bi, BlobHash bi)) (BlobInfos gap_index) = [(1, [0x0d]), (2, [0x0c])] \<and>
   seekOffset (stream_gap\<lparr>SDBlob := Some gap_index\<rparr>) = 0 \<and>
   Read env_num (stream_gap\<lparr>SDBlob := Some gap_index\<rparr>) [9, 9] =
     Inr ([http_Get ''http://blobs.lbry.io/0d''],
          stream_gap\<lparr>SDBlob := Some gap_index, seekOffset := 2\<rparr>, [41, 42], 2, None)"
proof -
  have a: "UnmarshalJSON env_num [3] = Inr sd_neg" "UnmarshalJSON env_num [4] = Inr sd_gap"
    by (simp_all add: env_num_def)
  have m: "map (\<lambda>bi. (BlobNum bi, BlobHash bi)) (BlobInfos sd_neg) = [(0, [0x0a]), (- 1, [0x0b])]"
    "map (\<lambda>bi. (BlobNum bi, BlobHash bi)) (BlobInfos neg_index) = [(- 1, [0x0b]), (0, [0x0a])]"
    "map (\<lambda>bi. (BlobNum bi, BlobHash bi)) (BlobInfos sd_gap) = [(2, [0x0c]), (1, [0x0d])]"
    "map (\<lambda>bi. (BlobNum bi, BlobHash bi)) (BlobInfos gap_index) = [(1, [0x0d]), (2, [0x0c])]"
    by (simp_all add: sd_neg_def neg_index_def sd_gap_def gap_index_def)
  have f: "fetchData env_num stream_neg =
     ([http_Get ''http://blobs.lbry.io/ab03''], stream_neg\<lparr>SDBlob := Some neg_index\<rparr>, None)"
    "fetchData env_num stream_gap =
     ([http_Get ''http://blobs.lbry.io/ab04''], stream_gap\<lparr>SDBlob := Some gap_index\<rparr>, None)"
    by (simp_all add: fetchData_def env_num_def stream_neg_def stream_gap_def new_stream_def
        URL_def reflectorURL_def sd_neg_def sd_gap_def neg_index_def gap_index_def
        sortBlobInfos_def)
  have o: "seekOffset (stream_neg\<lparr>SDBlob := Some neg_index\<rparr>) = 0"
    "seekOffset (stream_gap\<lparr>SDBlob := Some gap_index\<rparr>) = 0"
    by (simp_all add: stream_neg_def stream_gap_def new_stream_def)
  have r: "Read env_num (stream_neg\<lparr>SDBlob := Some neg_index\<rparr>) [9, 9] =
     Inr ([http_Get ''http://blobs.lbry.io/0b''],
          stream_neg\<lparr>SDBlob := Some neg_index, seekOffset := 2\<rparr>, [21, 22], 2, None)"
    "Read env_num (stream_gap\<lparr>SDBlob := Some gap_index\<rparr>) [9, 9] =
     Inr ([http_Get ''http://blobs.lbry.io/0d''],
          stream_gap\<lparr>SDBlob := Some gap_index, seekOffset := 2\<rparr>, [41, 42], 2, None)"
    by (simp_all add: eval_defs env_num_def stream_neg_def stream_gap_def neg_index_def
        gap_index_def)
  show ?thesis
    by (intro conjI) (fact a m f o r)+
qed

end
